theory Spec2Isabelle
  imports Main "HOL-Library.Word" "HOL-Library.Char_ord" "HOL-Library.List_Lexorder"
    "HOL-Library.Sublist"
begin

section \<open>The entity store (internal/db)\<close>

text \<open>
  The records of \<^verbatim>\<open>internal/db/models.go\<close>. A Go \<^verbatim>\<open>*int64\<close> namespace reference is an
  \<open>int option\<close> (\<open>None\<close> is SQL NULL); \<^verbatim>\<open>time.Time\<close> is an opaque number. Every Go
  struct has fields ID, Name, CreatedAt; record fields are global in HOL, so each carries
  a prefix for its struct.
\<close>

type_synonym timestamp = nat

record Namespace =
  ns_ID :: int
  ns_Name :: string
  ns_CreatedAt :: timestamp
  ns_Metadata :: string

record VethPair =
  vp_ID :: int
  vp_Name :: string
  vp_PeerName :: string
  vp_NsID :: "int option"
  vp_PeerNsID :: "int option"
  vp_CreatedAt :: timestamp

record IPAddress =
  ip_ID :: int
  ip_InterfaceName :: string
  ip_NsID :: "int option"
  ip_Address :: string
  ip_CreatedAt :: timestamp

record Route =
  rt_ID :: int
  rt_NsID :: "int option"
  rt_Destination :: string
  rt_Gateway :: string
  rt_InterfaceName :: string
  rt_CreatedAt :: timestamp

record Bridge =
  br_ID :: int
  br_Name :: string
  br_NsID :: "int option"
  br_CreatedAt :: timestamp

record BridgePort =
  bp_ID :: int
  bp_BridgeID :: int
  bp_InterfaceName :: string
  bp_CreatedAt :: timestamp

record GRETunnel =
  gre_ID :: int
  gre_Name :: string
  gre_LocalIP :: string
  gre_RemoteIP :: string
  gre_Key :: "32 word"
  gre_TTL :: "8 word"
  gre_NsID :: "int option"
  gre_CreatedAt :: timestamp

text \<open>
  The database of \<^verbatim>\<open>migrate\<close>: one list of rows per table, in insertion order.
  \<open>seq_*\<close> is the AUTOINCREMENT counter of a table (the largest id it ever gave out),
  \<open>now\<close> is what \<^verbatim>\<open>CURRENT_TIMESTAMP\<close> yields, and \<open>failing\<close> says that the connection
  returns an error for every statement (an unreadable or locked database file): the Go
  code branches on the error of every \<^verbatim>\<open>Exec\<close> and \<^verbatim>\<open>Query\<close>, and this flag makes those
  branches reachable for tables that have no constraint an insert could violate.
  \<open>breaking\<close> says that the connection is lost once the next INSERT has been carried
  out: the INSERT succeeds and the statements after it fail. It makes reachable the
  branch of a create function whose INSERT succeeded and whose reading back of the new
  row failed.
\<close>

record store =
  namespaces :: "Namespace list"
  veth_pairs :: "VethPair list"
  ip_addresses :: "IPAddress list"
  routes :: "Route list"
  bridges :: "Bridge list"
  bridge_ports :: "BridgePort list"
  gre_tunnels :: "GRETunnel list"
  seq_namespaces :: int
  seq_veth_pairs :: int
  seq_ip_addresses :: int
  seq_routes :: int
  seq_bridges :: int
  seq_bridge_ports :: int
  seq_gre_tunnels :: int
  now :: timestamp
  failing :: bool
  breaking :: bool

definition db_error :: string where
  "db_error = ''database is unavailable''"

text \<open>
  A foreign key \<^verbatim>\<open>REFERENCES namespaces(id)\<close>: with \<^verbatim>\<open>_foreign_keys=on\<close> (set by
  \<^verbatim>\<open>Open\<close>) a non-NULL reference must name an existing row when a row is inserted.
\<close>

definition fk_ok :: "store \<Rightarrow> int option \<Rightarrow> bool" where
  "fk_ok s r = (case r of None \<Rightarrow> True | Some i \<Rightarrow> i \<in> set (map ns_ID (namespaces s)))"

text \<open>\<open>refers dead r\<close>: the reference \<open>r\<close> names one of the deleted parent rows.\<close>

definition refers :: "int list \<Rightarrow> int option \<Rightarrow> bool" where
  "refers dead r = (case r of None \<Rightarrow> False | Some i \<Rightarrow> i \<in> set dead)"

subsection \<open>Namespace operations\<close>

definition GetNamespace :: "int \<Rightarrow> store \<Rightarrow> string + Namespace option" where
  "GetNamespace i s =
     (if failing s then Inl db_error
      else Inr (find (\<lambda>n. ns_ID n = i) (namespaces s)))"

definition GetNamespaceByName :: "string \<Rightarrow> store \<Rightarrow> string + Namespace option" where
  "GetNamespaceByName name s =
     (if failing s then Inl db_error
      else Inr (find (\<lambda>n. ns_Name n = name) (namespaces s)))"

text \<open>
  \<^verbatim>\<open>CreateNamespace\<close>: \<^verbatim>\<open>INSERT INTO namespaces (name, metadata)\<close> fails on the UNIQUE
  constraint of \<^verbatim>\<open>name\<close>, and its error is returned behind \<^verbatim>\<open>failed to create namespace\<close>;
  the new row takes the next AUTOINCREMENT id and the current timestamp. After the INSERT
  the function returns what \<^verbatim>\<open>GetNamespace\<close> returns for the new id, its error included;
  the row is in the table by then. A create function returns its result and the database
  as it leaves it.
\<close>

definition CreateNamespace ::
  "string \<Rightarrow> string \<Rightarrow> store \<Rightarrow> (string + Namespace option) \<times> store" where
  "CreateNamespace name metadata s =
     (if failing s \<or> name \<in> set (map ns_Name (namespaces s))
      then (Inl (''failed to create namespace: ''
                 @ (if failing s then db_error else ''UNIQUE constraint failed: namespaces.name'')), s)
      else let i = seq_namespaces s + 1;
               row = \<lparr>ns_ID = i, ns_Name = name, ns_CreatedAt = now s, ns_Metadata = metadata\<rparr>;
               s1 = s\<lparr>namespaces := namespaces s @ [row], seq_namespaces := i,
                      failing := breaking s\<rparr>
           in (GetNamespace i s1, s1))"

text \<open>\<^verbatim>\<open>SELECT ... FROM namespaces ORDER BY name\<close>.\<close>

definition ListNamespaces :: "store \<Rightarrow> string + Namespace list" where
  "ListNamespaces s =
     (if failing s then Inl db_error else Inr (sort_key ns_Name (namespaces s)))"

text \<open>
  \<^verbatim>\<open>DELETE FROM namespaces WHERE name = ?\<close>, with the foreign-key actions the schema of
  \<^verbatim>\<open>migrate\<close> declares for the deleted rows' ids:
  \<^item> \<^verbatim>\<open>veth_pairs.ns_id ... ON DELETE CASCADE\<close>: the pair's row is deleted;
  \<^item> \<^verbatim>\<open>veth_pairs.peer_ns_id ... ON DELETE SET NULL\<close>: the column becomes NULL;
  \<^item> \<^verbatim>\<open>ip_addresses.ns_id\<close>, \<^verbatim>\<open>routes.ns_id\<close>, \<^verbatim>\<open>bridges.ns_id\<close>,
    \<^verbatim>\<open>gre_tunnels.ns_id\<close>: \<^verbatim>\<open>ON DELETE CASCADE\<close>;
  \<^item> \<^verbatim>\<open>bridge_ports.bridge_id ... ON DELETE CASCADE\<close>: the ports of a bridge deleted by
    the cascade go with it.
  No row affected is the error \<^verbatim>\<open>namespace %q not found\<close>.
\<close>

definition null_peer :: "int list \<Rightarrow> VethPair \<Rightarrow> VethPair" where
  "null_peer dead v = (if refers dead (vp_PeerNsID v) then v\<lparr>vp_PeerNsID := None\<rparr> else v)"

definition cascade_delete :: "int list \<Rightarrow> store \<Rightarrow> store" where
  "cascade_delete dead s =
     (let dead_bridges = map br_ID (filter (\<lambda>b. refers dead (br_NsID b)) (bridges s))
      in s\<lparr>namespaces := filter (\<lambda>n. ns_ID n \<notin> set dead) (namespaces s),
            veth_pairs := map (null_peer dead) (filter (\<lambda>v. \<not> refers dead (vp_NsID v)) (veth_pairs s)),
            ip_addresses := filter (\<lambda>a. \<not> refers dead (ip_NsID a)) (ip_addresses s),
            routes := filter (\<lambda>r. \<not> refers dead (rt_NsID r)) (routes s),
            bridges := filter (\<lambda>b. \<not> refers dead (br_NsID b)) (bridges s),
            bridge_ports := filter (\<lambda>p. bp_BridgeID p \<notin> set dead_bridges) (bridge_ports s),
            gre_tunnels := filter (\<lambda>t. \<not> refers dead (gre_NsID t)) (gre_tunnels s)\<rparr>)"

definition DeleteNamespace :: "string \<Rightarrow> store \<Rightarrow> string + store" where
  "DeleteNamespace name s =
     (if failing s then Inl db_error
      else let dead = map ns_ID (filter (\<lambda>n. ns_Name n = name) (namespaces s))
           in if dead = [] then Inl (''namespace \"'' @ name @ ''\" not found'')
              else Inr (cascade_delete dead s))"

section \<open>The reconciler (\<^verbatim>\<open>nsListCmd\<close> of internal/cli/namespace.go)\<close>

text \<open>
  One line of the table \<^verbatim>\<open>NAME STATUS CREATED\<close>. The CREATED column is the formatted
  creation time of a database record, or the text \<^verbatim>\<open>-\<close>, which is \<open>None\<close> here.
\<close>

record report_row =
  row_name :: string
  row_status :: string
  row_created :: "timestamp option"

text \<open>
  The first loop, over the names the system lists: the status starts as \<^verbatim>\<open>active\<close> and
  the time as \<^verbatim>\<open>-\<close>; the inner loop takes the time of the first database record of
  that name; a name that is not a key of \<^verbatim>\<open>databaseNamespaceMap\<close> is \<^verbatim>\<open>untracked\<close>.
\<close>

definition live_row :: "Namespace list \<Rightarrow> string \<Rightarrow> report_row" where
  "live_row databaseNamespaces namespaceName =
     \<lparr>row_name = namespaceName,
      row_status = (if namespaceName \<in> set (map ns_Name databaseNamespaces)
                    then ''active'' else ''untracked''),
      row_created = map_option ns_CreatedAt
                      (find (\<lambda>r. ns_Name r = namespaceName) databaseNamespaces)\<rparr>"

text \<open>
  The second loop (\<^verbatim>\<open>Show DB entries that don't exist in system\<close>): every database
  record whose name the system did not list is printed as \<^verbatim>\<open>orphaned\<close>, with its time.
\<close>

definition orphan_rows :: "string list \<Rightarrow> Namespace list \<Rightarrow> report_row list" where
  "orphan_rows systemNamespaces databaseNamespaces =
     map (\<lambda>r. \<lparr>row_name = ns_Name r, row_status = ''orphaned'',
               row_created = Some (ns_CreatedAt r)\<rparr>)
         (filter (\<lambda>r. ns_Name r \<notin> set systemNamespaces) databaseNamespaces)"

definition reconcile :: "string list \<Rightarrow> Namespace list \<Rightarrow> report_row list" where
  "reconcile systemNamespaces databaseNamespaces =
     map (live_row databaseNamespaces) systemNamespaces
     @ orphan_rows systemNamespaces databaseNamespaces"

text \<open>
  The command itself: the result of \<^verbatim>\<open>namespaceManager.List()\<close> is its first argument
  (an error, or the names of the entries of \<^verbatim>\<open>/var/run/netns\<close> that are not
  directories, in the order \<^verbatim>\<open>os.ReadDir\<close> gives them); an error of either listing is
  returned before anything is printed.
\<close>

definition nsListCmd :: "string + string list \<Rightarrow> store \<Rightarrow> string + report_row list" where
  "nsListCmd listed s =
     (case listed of
        Inl err \<Rightarrow> Inl err
      | Inr systemNamespaces \<Rightarrow>
          (case ListNamespaces s of
             Inl err \<Rightarrow> Inl err
           | Inr databaseNamespaces \<Rightarrow> Inr (reconcile systemNamespaces databaseNamespaces)))"

section \<open>The restore script (scripts/netns-restore.sh)\<close>

text \<open>
  The script runs the \<^verbatim>\<open>ip\<close> tool. Each constructor is one form of invocation the script
  makes; an optional namespace is \<^verbatim>\<open>ip netns exec NS ...\<close> when it is \<open>Some NS\<close> and the
  plain command in the host namespace when it is \<open>None\<close>:
  \<^item> \<open>NetnsListGrep n\<close>: \<^verbatim>\<open>ip netns list | grep -q "^n$"\<close>;
  \<^item> \<open>NetnsAdd n\<close>: \<^verbatim>\<open>ip netns add n\<close>;
  \<^item> \<open>LinkSetUp ns d\<close>: \<^verbatim>\<open>ip link set d up\<close>;
  \<^item> \<open>LinkShow ns d\<close>: \<^verbatim>\<open>ip link show d\<close>;
  \<^item> \<open>LinkAddVeth a b\<close>: \<^verbatim>\<open>ip link add a type veth peer name b\<close>;
  \<^item> \<open>LinkSetNetns d n\<close>: \<^verbatim>\<open>ip link set d netns n\<close>;
  \<^item> \<open>AddrShowGrep ns d a\<close>: \<^verbatim>\<open>ip addr show dev d | grep -q a\<close>;
  \<^item> \<open>AddrAdd ns d a\<close>: \<^verbatim>\<open>ip addr add a dev d\<close>;
  \<^item> \<open>RouteAdd ns dst via dev\<close>: \<^verbatim>\<open>ip route add dst [via GW] [dev D]\<close>;
  \<^item> \<open>LinkAddBridge ns b\<close>: \<^verbatim>\<open>ip link add b type bridge\<close>;
  \<^item> \<open>LinkSetMaster ns d b\<close>: \<^verbatim>\<open>ip link set d master b\<close>;
  \<^item> \<open>LinkAddGre ns t l r key ttl\<close>:
    \<^verbatim>\<open>ip link add t type gre local l remote r [key K] [ttl T]\<close>.
  The tool itself is not part of the repository: it is a parameter of the model, a function
  from an invocation and the state of the system to the exit status (\<open>True\<close> is status 0)
  and the new state.
\<close>

datatype ipcmd =
    NetnsListGrep string
  | NetnsAdd string
  | LinkSetUp "string option" string
  | LinkShow "string option" string
  | LinkAddVeth string string
  | LinkSetNetns string string
  | AddrShowGrep "string option" string string
  | AddrAdd "string option" string string
  | RouteAdd "string option" string "string option" "string option"
  | LinkAddBridge "string option" string
  | LinkSetMaster "string option" string string
  | LinkAddGre "string option" string string string "32 word option" "8 word option"

type_synonym 'w iptool = "ipcmd \<Rightarrow> 'w \<Rightarrow> bool \<times> 'w"

text \<open>
  The calls \<^verbatim>\<open>restore_all\<close> makes: \<^verbatim>\<open>log_info\<close> and the seven functions, with their
  arguments. The GRE key and TTL are the numbers of the database row; the script passes
  their decimal text.
\<close>

datatype call =
    Call_log_info string
  | Call_create_namespace string
  | Call_create_bridge string string
  | Call_create_veth string string string string
  | Call_add_ip_address string string string
  | Call_add_route string string string string
  | Call_add_bridge_port string string string
  | Call_create_gre_tunnel string string string "32 word" "8 word" string

text \<open>
  The state of a run: the system, the lines written by \<^verbatim>\<open>log\<close> (level and message,
  without the timestamp and the colour codes), and two histories kept for stating
  properties: the invocations of \<^verbatim>\<open>ip\<close> made so far and the calls entered so far.
\<close>

record 'w sh =
  world :: 'w
  shlog :: "(string \<times> string) list"
  issued :: "ipcmd list"
  entered :: "call list"

text \<open>
  The script runs under \<^verbatim>\<open>set -e\<close>: a command that fails outside an \<^verbatim>\<open>if\<close> condition
  and outside a \<^verbatim>\<open>||\<close> list ends the script at once. \<open>Exit\<close> is that end, \<open>Done\<close> is
  the normal return of a function.
\<close>

datatype 'a outcome = Done 'a | Exit 'a

fun final :: "'a outcome \<Rightarrow> 'a" where
  "final (Done s) = s"
| "final (Exit s) = s"

fun completed :: "'a outcome \<Rightarrow> bool" where
  "completed (Done s) = True"
| "completed (Exit s) = False"

definition ip :: "'w iptool \<Rightarrow> ipcmd \<Rightarrow> 'w sh \<Rightarrow> bool \<times> 'w sh" where
  "ip tool c s =
     (let (ok, w) = tool c (world s) in (ok, s\<lparr>world := w, issued := issued s @ [c]\<rparr>))"

definition log_info :: "string \<Rightarrow> 'w sh \<Rightarrow> 'w sh" where
  "log_info msg s = s\<lparr>shlog := shlog s @ [(''INFO'', msg)]\<rparr>"

definition log_warn :: "string \<Rightarrow> 'w sh \<Rightarrow> 'w sh" where
  "log_warn msg s = s\<lparr>shlog := shlog s @ [(''WARN'', msg)]\<rparr>"

definition log_success :: "string \<Rightarrow> 'w sh \<Rightarrow> 'w sh" where
  "log_success msg s = s\<lparr>shlog := shlog s @ [(''OK'', msg)]\<rparr>"

text \<open>A name between single quotes, as the messages print it.\<close>

definition quoted :: "string \<Rightarrow> string" where
  "quoted n = [CHR 0x27] @ n @ [CHR 0x27]"

text \<open>
  The test \<^verbatim>\<open>[[ -n "$namespace_name" && "$namespace_name" != "NULL" ]]\<close>: the command
  runs inside the namespace when it holds, in the host namespace otherwise.
\<close>

definition in_ns :: "string \<Rightarrow> string option" where
  "in_ns namespace_name =
     (if namespace_name \<noteq> '''' \<and> namespace_name \<noteq> ''NULL'' then Some namespace_name else None)"

definition create_namespace :: "'w iptool \<Rightarrow> string \<Rightarrow> 'w sh \<Rightarrow> 'w sh outcome" where
  "create_namespace tool namespace_name s =
     (let (present, s1) = ip tool (NetnsListGrep namespace_name) s in
      if present
      then Done (log_warn (''Namespace '' @ quoted namespace_name @ '' already exists, skipping'') s1)
      else let (added, s2) = ip tool (NetnsAdd namespace_name) s1 in
        if \<not> added then Exit s2
        else let (up, s3) = ip tool (LinkSetUp (Some namespace_name) ''lo'') s2 in
          if \<not> up then Exit s3
          else Done (log_success (''Created namespace: '' @ namespace_name) s3))"

text \<open>
  \<^verbatim>\<open>create_veth\<close> looks for the first interface in the host namespace only; the three
  commands that follow are unguarded.
\<close>

definition create_veth ::
  "'w iptool \<Rightarrow> string \<Rightarrow> string \<Rightarrow> string \<Rightarrow> string \<Rightarrow> 'w sh \<Rightarrow> 'w sh outcome" where
  "create_veth tool veth_name peer_name namespace_name peer_namespace_name s =
     (let (present, s1) = ip tool (LinkShow None veth_name) s in
      if present
      then Done (log_warn (''Veth '' @ quoted veth_name @ '' already exists, skipping'') s1)
      else let (added, s2) = ip tool (LinkAddVeth veth_name peer_name) s1 in
        if \<not> added then Exit s2
        else let (moved, s3) =
                   (case in_ns namespace_name of
                      Some ns \<Rightarrow> ip tool (LinkSetNetns veth_name ns) s2
                    | None \<Rightarrow> (True, s2)) in
          if \<not> moved then Exit s3
          else let (peer_moved, s4) =
                     (case in_ns peer_namespace_name of
                        Some ns \<Rightarrow> ip tool (LinkSetNetns peer_name ns) s3
                      | None \<Rightarrow> (True, s3)) in
            if \<not> peer_moved then Exit s4
            else Done (log_success (''Created veth pair: '' @ veth_name @ '' <-> '' @ peer_name) s4))"

text \<open>
  \<^verbatim>\<open>add_ip_address\<close>: both commands end in \<^verbatim>\<open>2>/dev/null || true\<close>, so their status is
  dropped and the success line is written in any case.
\<close>

definition add_ip_address ::
  "'w iptool \<Rightarrow> string \<Rightarrow> string \<Rightarrow> string \<Rightarrow> 'w sh \<Rightarrow> 'w sh outcome" where
  "add_ip_address tool interface_name ip_address namespace_name s =
     (case in_ns namespace_name of
        Some ns \<Rightarrow>
          (let (present, s1) = ip tool (AddrShowGrep (Some ns) interface_name ip_address) s in
           if present
           then Done (log_warn (''Address '' @ quoted ip_address @ '' already exists on ''
                        @ interface_name @ '' in '' @ ns @ '', skipping'') s1)
           else let (_, s2) = ip tool (AddrAdd (Some ns) interface_name ip_address) s1;
                    (_, s3) = ip tool (LinkSetUp (Some ns) interface_name) s2
                in Done (log_success (''Added IP: '' @ ip_address @ '' to '' @ interface_name) s3))
      | None \<Rightarrow>
          (let (present, s1) = ip tool (AddrShowGrep None interface_name ip_address) s in
           if present
           then Done (log_warn (''Address '' @ quoted ip_address @ '' already exists on ''
                        @ interface_name @ '', skipping'') s1)
           else let (_, s2) = ip tool (AddrAdd None interface_name ip_address) s1;
                    (_, s3) = ip tool (LinkSetUp None interface_name) s2
                in Done (log_success (''Added IP: '' @ ip_address @ '' to '' @ interface_name) s3)))"

text \<open>
  \<^verbatim>\<open>add_route\<close> builds the command and runs it with no test before it; a failure writes
  the warning \<^verbatim>\<open>Route may already exist\<close>, and the success line follows in any case.
\<close>

definition add_route ::
  "'w iptool \<Rightarrow> string \<Rightarrow> string \<Rightarrow> string \<Rightarrow> string \<Rightarrow> 'w sh \<Rightarrow> 'w sh outcome" where
  "add_route tool destination gateway interface_name namespace_name s =
     (let dst = (if destination = ''default'' \<or> destination = '''' then ''default'' else destination);
          via = (if gateway \<noteq> '''' \<and> gateway \<noteq> ''NULL'' then Some gateway else None);
          dev = (if interface_name \<noteq> '''' \<and> interface_name \<noteq> ''NULL''
                 then Some interface_name else None);
          (ok, s1) = ip tool (RouteAdd (in_ns namespace_name) dst via dev) s;
          s2 = (if ok then s1 else log_warn (''Route may already exist: '' @ destination) s1)
      in Done (log_success (''Added route: '' @ destination) s2))"

definition create_bridge :: "'w iptool \<Rightarrow> string \<Rightarrow> string \<Rightarrow> 'w sh \<Rightarrow> 'w sh outcome" where
  "create_bridge tool bridge_name namespace_name s =
     (case in_ns namespace_name of
        Some ns \<Rightarrow>
          (let (present, s1) = ip tool (LinkShow (Some ns) bridge_name) s in
           if present
           then Done (log_warn (''Bridge '' @ quoted bridge_name @ '' already exists in ''
                        @ ns @ '', skipping'') s1)
           else let (added, s2) = ip tool (LinkAddBridge (Some ns) bridge_name) s1 in
             if \<not> added then Exit s2
             else let (up, s3) = ip tool (LinkSetUp (Some ns) bridge_name) s2 in
               if \<not> up then Exit s3
               else Done (log_success (''Created bridge: '' @ bridge_name) s3))
      | None \<Rightarrow>
          (let (present, s1) = ip tool (LinkShow None bridge_name) s in
           if present
           then Done (log_warn (''Bridge '' @ quoted bridge_name @ '' already exists, skipping'') s1)
           else let (added, s2) = ip tool (LinkAddBridge None bridge_name) s1 in
             if \<not> added then Exit s2
             else let (up, s3) = ip tool (LinkSetUp None bridge_name) s2 in
               if \<not> up then Exit s3
               else Done (log_success (''Created bridge: '' @ bridge_name) s3)))"

definition add_bridge_port ::
  "'w iptool \<Rightarrow> string \<Rightarrow> string \<Rightarrow> string \<Rightarrow> 'w sh \<Rightarrow> 'w sh outcome" where
  "add_bridge_port tool bridge_name interface_name namespace_name s =
     (let (_, s1) = ip tool (LinkSetMaster (in_ns namespace_name) interface_name bridge_name) s
      in Done (log_success (''Added port '' @ interface_name @ '' to bridge '' @ bridge_name) s1))"

definition create_gre_tunnel ::
  "'w iptool \<Rightarrow> string \<Rightarrow> string \<Rightarrow> string \<Rightarrow> 32 word \<Rightarrow> 8 word \<Rightarrow> string \<Rightarrow> 'w sh
     \<Rightarrow> 'w sh outcome" where
  "create_gre_tunnel tool tunnel_name local_ip remote_ip gre_key ttl namespace_name s =
     (let key = (if gre_key \<noteq> 0 then Some gre_key else None);
          hops = (if ttl \<noteq> 0 then Some ttl else None)
      in case in_ns namespace_name of
        Some ns \<Rightarrow>
          (let (present, s1) = ip tool (LinkShow (Some ns) tunnel_name) s in
           if present
           then Done (log_warn (''GRE tunnel '' @ quoted tunnel_name @ '' already exists in ''
                        @ ns @ '', skipping'') s1)
           else let (_, s2) = ip tool (LinkAddGre (Some ns) tunnel_name local_ip remote_ip key hops) s1;
                    (_, s3) = ip tool (LinkSetUp (Some ns) tunnel_name) s2
                in Done (log_success (''Created GRE tunnel: '' @ tunnel_name @ '' (local=''
                           @ local_ip @ '', remote='' @ remote_ip @ '')'') s3))
      | None \<Rightarrow>
          (let (present, s1) = ip tool (LinkShow None tunnel_name) s in
           if present
           then Done (log_warn (''GRE tunnel '' @ quoted tunnel_name @ '' already exists, skipping'') s1)
           else let (_, s2) = ip tool (LinkAddGre None tunnel_name local_ip remote_ip key hops) s1;
                    (_, s3) = ip tool (LinkSetUp None tunnel_name) s2
                in Done (log_success (''Created GRE tunnel: '' @ tunnel_name @ '' (local=''
                           @ local_ip @ '', remote='' @ remote_ip @ '')'') s3)))"

subsection \<open>\<^verbatim>\<open>restore_all\<close>\<close>

text \<open>
  \<^verbatim>\<open>SELECT name FROM namespaces WHERE id=$namespace_id\<close>, run when the id is neither
  empty nor \<^verbatim>\<open>NULL\<close> (sqlite3 prints a NULL column as the empty text); the name is empty
  when there is no such row.
\<close>

definition ns_name_of :: "store \<Rightarrow> int option \<Rightarrow> string" where
  "ns_name_of db r =
     (case r of
        None \<Rightarrow> ''''
      | Some i \<Rightarrow> (case find (\<lambda>n. ns_ID n = i) (namespaces db) of
                     None \<Rightarrow> '''' | Some n \<Rightarrow> ns_Name n))"

text \<open>The bridge of a port: its name and its \<^verbatim>\<open>ns_id\<close>, by two queries on \<^verbatim>\<open>bridges\<close>.\<close>

definition bridge_name_of :: "store \<Rightarrow> int \<Rightarrow> string" where
  "bridge_name_of db i =
     (case find (\<lambda>b. br_ID b = i) (bridges db) of None \<Rightarrow> '''' | Some b \<Rightarrow> br_Name b)"

definition bridge_ns_of :: "store \<Rightarrow> int \<Rightarrow> int option" where
  "bridge_ns_of db i =
     (case find (\<lambda>b. br_ID b = i) (bridges db) of None \<Rightarrow> None | Some b \<Rightarrow> br_NsID b)"

text \<open>
  The calls of each stage, read from the database in the order of the row ids. A row whose
  key column is empty is skipped (\<^verbatim>\<open>[[ -z ... ]] && continue\<close>). The model reads the
  tables of the store as they are when the script starts: the script never writes to the
  database, its queries are taken to succeed, and names are taken to hold no white space,
  no \<^verbatim>\<open>|\<close> and no line break (the script splits the query output on them).
\<close>

definition namespace_calls :: "store \<Rightarrow> call list" where
  "namespace_calls db =
     map Call_create_namespace
       (filter (\<lambda>name. name \<noteq> '''') (map ns_Name (sort_key ns_ID (namespaces db))))"

definition bridge_calls :: "store \<Rightarrow> call list" where
  "bridge_calls db =
     map (\<lambda>b. Call_create_bridge (br_Name b) (ns_name_of db (br_NsID b)))
       (filter (\<lambda>b. br_Name b \<noteq> '''') (sort_key br_ID (bridges db)))"

definition veth_calls :: "store \<Rightarrow> call list" where
  "veth_calls db =
     map (\<lambda>v. Call_create_veth (vp_Name v) (vp_PeerName v)
                (ns_name_of db (vp_NsID v)) (ns_name_of db (vp_PeerNsID v)))
       (filter (\<lambda>v. vp_Name v \<noteq> '''') (sort_key vp_ID (veth_pairs db)))"

definition address_calls :: "store \<Rightarrow> call list" where
  "address_calls db =
     map (\<lambda>a. Call_add_ip_address (ip_InterfaceName a) (ip_Address a) (ns_name_of db (ip_NsID a)))
       (filter (\<lambda>a. ip_Address a \<noteq> '''') (sort_key ip_ID (ip_addresses db)))"

definition route_calls :: "store \<Rightarrow> call list" where
  "route_calls db =
     map (\<lambda>r. Call_add_route (rt_Destination r) (rt_Gateway r) (rt_InterfaceName r)
                (ns_name_of db (rt_NsID r)))
       (filter (\<lambda>r. rt_Destination r \<noteq> '''') (sort_key rt_ID (routes db)))"

definition port_calls :: "store \<Rightarrow> call list" where
  "port_calls db =
     map (\<lambda>p. Call_add_bridge_port (bridge_name_of db (bp_BridgeID p)) (bp_InterfaceName p)
                (ns_name_of db (bridge_ns_of db (bp_BridgeID p))))
       (filter (\<lambda>p. bp_InterfaceName p \<noteq> '''') (sort_key bp_ID (bridge_ports db)))"

definition tunnel_calls :: "store \<Rightarrow> call list" where
  "tunnel_calls db =
     map (\<lambda>t. Call_create_gre_tunnel (gre_Name t) (gre_LocalIP t) (gre_RemoteIP t)
                (gre_Key t) (gre_TTL t) (ns_name_of db (gre_NsID t)))
       (filter (\<lambda>t. gre_Name t \<noteq> '''') (sort_key gre_ID (gre_tunnels db)))"

definition banner :: string where
  "banner = ''==========================================''"

text \<open>The body of \<^verbatim>\<open>restore_all\<close>, top to bottom.\<close>

definition restore_all_calls :: "store \<Rightarrow> call list" where
  "restore_all_calls db =
     [Call_log_info banner, Call_log_info ''Starting network namespace restoration'',
      Call_log_info banner, Call_log_info ''Restoring namespaces...'']
     @ namespace_calls db
     @ [Call_log_info ''Restoring bridges...''] @ bridge_calls db
     @ [Call_log_info ''Restoring veth pairs...''] @ veth_calls db
     @ [Call_log_info ''Restoring IP addresses...''] @ address_calls db
     @ [Call_log_info ''Restoring routes...''] @ route_calls db
     @ [Call_log_info ''Restoring bridge ports...''] @ port_calls db
     @ [Call_log_info ''Restoring GRE tunnels...''] @ tunnel_calls db
     @ [Call_log_info banner, Call_log_info ''Restoration complete!'', Call_log_info banner]"

fun dispatch :: "'w iptool \<Rightarrow> call \<Rightarrow> 'w sh \<Rightarrow> 'w sh outcome" where
  "dispatch tool (Call_log_info msg) s = Done (log_info msg s)"
| "dispatch tool (Call_create_namespace n) s = create_namespace tool n s"
| "dispatch tool (Call_create_bridge b ns) s = create_bridge tool b ns s"
| "dispatch tool (Call_create_veth v p ns pns) s = create_veth tool v p ns pns s"
| "dispatch tool (Call_add_ip_address i a ns) s = add_ip_address tool i a ns s"
| "dispatch tool (Call_add_route d g i ns) s = add_route tool d g i ns s"
| "dispatch tool (Call_add_bridge_port b i ns) s = add_bridge_port tool b i ns s"
| "dispatch tool (Call_create_gre_tunnel t l r k h ns) s = create_gre_tunnel tool t l r k h ns s"

definition exec_call :: "'w iptool \<Rightarrow> call \<Rightarrow> 'w sh \<Rightarrow> 'w sh outcome" where
  "exec_call tool c s = dispatch tool c (s\<lparr>entered := entered s @ [c]\<rparr>)"

text \<open>One call after the other; the script ends where a call ends it.\<close>

fun run_calls :: "'w iptool \<Rightarrow> call list \<Rightarrow> 'w sh \<Rightarrow> 'w sh outcome" where
  "run_calls tool [] s = Done s"
| "run_calls tool (c # cs) s =
     (case exec_call tool c s of Done s' \<Rightarrow> run_calls tool cs s' | Exit s' \<Rightarrow> Exit s')"

definition restore_all :: "'w iptool \<Rightarrow> store \<Rightarrow> 'w sh \<Rightarrow> 'w sh outcome" where
  "restore_all tool db s = run_calls tool (restore_all_calls db) s"

text \<open>The stage of a call, 1 to 7; \<^verbatim>\<open>log_info\<close> belongs to none.\<close>

fun stage_of :: "call \<Rightarrow> nat option" where
  "stage_of (Call_log_info msg) = None"
| "stage_of (Call_create_namespace n) = Some 1"
| "stage_of (Call_create_bridge b ns) = Some 2"
| "stage_of (Call_create_veth v p ns pns) = Some 3"
| "stage_of (Call_add_ip_address i a ns) = Some 4"
| "stage_of (Call_add_route d g i ns) = Some 5"
| "stage_of (Call_add_bridge_port b i ns) = Some 6"
| "stage_of (Call_create_gre_tunnel t l r k h ns) = Some 7"

definition fresh_run :: "'w \<Rightarrow> 'w sh" where
  "fresh_run w = \<lparr>world = w, shlog = [], issued = [], entered = []\<rparr>"

subsection \<open>The commands of a call\<close>


section \<open>The commands (internal/cli) and the API handlers (internal/api)\<close>

subsection \<open>The store operations they use\<close>

definition GetIPAddress :: "int \<Rightarrow> store \<Rightarrow> string + IPAddress option" where
  "GetIPAddress i s =
     (if failing s then Inl db_error
      else Inr (find (\<lambda>a. ip_ID a = i) (ip_addresses s)))"

text \<open>
  \<^verbatim>\<open>CreateIPAddress\<close>: \<^verbatim>\<open>ip_addresses\<close> has no UNIQUE column; the INSERT fails on a
  namespace reference that names no row, or on the connection. The row is then read back
  by \<^verbatim>\<open>GetIPAddress\<close>, whose result the function returns.
\<close>

definition CreateIPAddress ::
  "string \<Rightarrow> int option \<Rightarrow> string \<Rightarrow> store \<Rightarrow> (string + IPAddress option) \<times> store" where
  "CreateIPAddress interfaceName nsID address s =
     (if failing s \<or> \<not> fk_ok s nsID
      then (Inl (''failed to create IP address: ''
                 @ (if failing s then db_error else ''FOREIGN KEY constraint failed'')), s)
      else let i = seq_ip_addresses s + 1;
               row = \<lparr>ip_ID = i, ip_InterfaceName = interfaceName, ip_NsID = nsID,
                      ip_Address = address, ip_CreatedAt = now s\<rparr>;
               s1 = s\<lparr>ip_addresses := ip_addresses s @ [row], seq_ip_addresses := i,
                      failing := breaking s\<rparr>
           in (GetIPAddress i s1, s1))"

text \<open>
  \<^verbatim>\<open>DELETE FROM ip_addresses WHERE id = ?\<close>; the message of the source also prints the
  id.
\<close>

definition DeleteIPAddress :: "int \<Rightarrow> store \<Rightarrow> string + store" where
  "DeleteIPAddress i s =
     (if failing s then Inl db_error
      else if i \<notin> set (map ip_ID (ip_addresses s)) then Inl ''IP address not found''
      else Inr (s\<lparr>ip_addresses := filter (\<lambda>a. ip_ID a \<noteq> i) (ip_addresses s)\<rparr>))"

definition GetBridgeByName :: "string \<Rightarrow> store \<Rightarrow> string + Bridge option" where
  "GetBridgeByName name s =
     (if failing s then Inl db_error
      else Inr (find (\<lambda>b. br_Name b = name) (bridges s)))"






definition DeleteVethPair :: "string \<Rightarrow> store \<Rightarrow> string + store" where
  "DeleteVethPair name s =
     (if failing s then Inl db_error
      else if name \<notin> set (map vp_Name (veth_pairs s))
      then Inl (''veth pair \"'' @ name @ ''\" not found'')
      else Inr (s\<lparr>veth_pairs := filter (\<lambda>v. vp_Name v \<noteq> name) (veth_pairs s)\<rparr>))"

text \<open>\<^verbatim>\<open>CreateRoute\<close>: no UNIQUE column; the row is read back by \<^verbatim>\<open>GetRoute\<close>.\<close>

definition GetRoute :: "int \<Rightarrow> store \<Rightarrow> string + Route option" where
  "GetRoute i s =
     (if failing s then Inl db_error
      else Inr (find (\<lambda>r. rt_ID r = i) (routes s)))"

definition CreateRoute ::
  "int option \<Rightarrow> string \<Rightarrow> string \<Rightarrow> string \<Rightarrow> store \<Rightarrow> (string + Route option) \<times> store" where
  "CreateRoute nsID destination gateway interfaceName s =
     (if failing s \<or> \<not> fk_ok s nsID
      then (Inl (''failed to create route: ''
                 @ (if failing s then db_error else ''FOREIGN KEY constraint failed'')), s)
      else let i = seq_routes s + 1;
               row = \<lparr>rt_ID = i, rt_NsID = nsID, rt_Destination = destination,
                      rt_Gateway = gateway, rt_InterfaceName = interfaceName,
                      rt_CreatedAt = now s\<rparr>;
               s1 = s\<lparr>routes := routes s @ [row], seq_routes := i, failing := breaking s\<rparr>
           in (GetRoute i s1, s1))"



text \<open>
  \<^verbatim>\<open>DELETE FROM bridges WHERE name = ?\<close>; the ports of the bridge go with it
  (\<^verbatim>\<open>bridge_ports.bridge_id ... ON DELETE CASCADE\<close>).
\<close>

definition DeleteBridge :: "string \<Rightarrow> store \<Rightarrow> string + store" where
  "DeleteBridge name s =
     (if failing s then Inl db_error
      else let dead = map br_ID (filter (\<lambda>b. br_Name b = name) (bridges s))
           in if dead = [] then Inl (''bridge \"'' @ name @ ''\" not found'')
              else Inr (s\<lparr>bridges := filter (\<lambda>b. br_Name b \<noteq> name) (bridges s),
                          bridge_ports := filter (\<lambda>p. bp_BridgeID p \<notin> set dead) (bridge_ports s)\<rparr>))"

definition RemoveBridgePort :: "int \<Rightarrow> string \<Rightarrow> store \<Rightarrow> string + store" where
  "RemoveBridgePort bridgeID interfaceName s =
     (if failing s then Inl db_error
      else if \<not> (\<exists>p \<in> set (bridge_ports s).
                   bp_BridgeID p = bridgeID \<and> bp_InterfaceName p = interfaceName)
      then Inl (''port \"'' @ interfaceName @ ''\" not found on bridge'')
      else Inr (s\<lparr>bridge_ports :=
                    filter (\<lambda>p. \<not> (bp_BridgeID p = bridgeID \<and> bp_InterfaceName p = interfaceName))
                      (bridge_ports s)\<rparr>))"

definition DeleteGRETunnel :: "string \<Rightarrow> store \<Rightarrow> string + store" where
  "DeleteGRETunnel name s =
     (if failing s then Inl db_error
      else if name \<notin> set (map gre_Name (gre_tunnels s))
      then Inl (''GRE tunnel \"'' @ name @ ''\" not found'')
      else Inr (s\<lparr>gre_tunnels := filter (\<lambda>t. gre_Name t \<noteq> name) (gre_tunnels s)\<rparr>))"

subsection \<open>The managers of internal/netns, as parameters\<close>

text \<open>
  The commands call the methods of the managers of \<^verbatim>\<open>internal/netns\<close>, which act on the
  kernel through netlink. For the commands each method is a function from the state of the
  system to an error (\<open>None\<close> is \<^verbatim>\<open>nil\<close>) and the new state; nothing more is assumed of
  it, so what is proved of a command holds whatever the managers do.
\<close>

record gre_config =
  cfg_Name :: string
  cfg_LocalIP :: string
  cfg_RemoteIP :: string
  cfg_Key :: "32 word"
  cfg_TTL :: "8 word"
  cfg_Namespace :: string

record 'w sysops =
  ns_Create :: "string \<Rightarrow> 'w \<Rightarrow> string option \<times> 'w"
  ns_Delete :: "string \<Rightarrow> 'w \<Rightarrow> string option \<times> 'w"
  veth_Create :: "string \<Rightarrow> string \<Rightarrow> string \<Rightarrow> string \<Rightarrow> 'w \<Rightarrow> string option \<times> 'w"
  veth_Delete :: "string \<Rightarrow> 'w \<Rightarrow> string option \<times> 'w"
  addr_Add :: "string \<Rightarrow> string \<Rightarrow> string \<Rightarrow> 'w \<Rightarrow> string option \<times> 'w"
  addr_Delete :: "string \<Rightarrow> string \<Rightarrow> string \<Rightarrow> 'w \<Rightarrow> string option \<times> 'w"
  route_Add :: "string \<Rightarrow> string \<Rightarrow> string \<Rightarrow> string \<Rightarrow> 'w \<Rightarrow> string option \<times> 'w"
  route_Delete :: "string \<Rightarrow> string \<Rightarrow> 'w \<Rightarrow> string option \<times> 'w"
  bridge_Create :: "string \<Rightarrow> string \<Rightarrow> 'w \<Rightarrow> string option \<times> 'w"
  bridge_Delete :: "string \<Rightarrow> string \<Rightarrow> 'w \<Rightarrow> string option \<times> 'w"
  bridge_AddPort :: "string \<Rightarrow> string \<Rightarrow> string \<Rightarrow> 'w \<Rightarrow> string option \<times> 'w"
  bridge_RemovePort :: "string \<Rightarrow> string \<Rightarrow> 'w \<Rightarrow> string option \<times> 'w"
  gre_CreateWithOptions :: "gre_config \<Rightarrow> 'w \<Rightarrow> string option \<times> 'w"
  gre_CreatePeerTunnels ::
    "string \<Rightarrow> string \<Rightarrow> string \<Rightarrow> string \<Rightarrow> string \<Rightarrow> string \<Rightarrow> string \<Rightarrow> 'w \<Rightarrow> string option \<times> 'w"
  gre_Delete :: "string \<Rightarrow> string \<Rightarrow> 'w \<Rightarrow> string option \<times> 'w"

text \<open>
  What a command works on: the system, the database behind \<^verbatim>\<open>Repo\<close>, and the lines it
  has printed. A command returns its error (\<open>None\<close> is \<^verbatim>\<open>nil\<close>) and the new state.
\<close>

datatype out_line = Stdout string | Stderr string

record 'w env =
  e_sys :: 'w
  e_db :: store
  e_out :: "out_line list"

text \<open>
  The namespace id recorded with a resource: looked up only for a non-empty name, and
  null when the lookup fails or finds no record.
\<close>

definition resolve_ns :: "string \<Rightarrow> store \<Rightarrow> int option" where
  "resolve_ns name s =
     (if name \<noteq> ''''
      then (case GetNamespaceByName name s of
              Inr (Some namespaceRecord) \<Rightarrow> Some (ns_ID namespaceRecord)
            | _ \<Rightarrow> None)
      else None)"

subsection \<open>Namespace commands\<close>

definition nsCreateCmd :: "'w sysops \<Rightarrow> string \<Rightarrow> 'w env \<Rightarrow> string option \<times> 'w env" where
  "nsCreateCmd ops namespaceName e =
     (case ns_Create ops namespaceName (e_sys e) of
        (Some err, w) \<Rightarrow> (Some err, e\<lparr>e_sys := w\<rparr>)
      | (None, w) \<Rightarrow>
          (case CreateNamespace namespaceName '''' (e_db e) of
             (Inl err, d) \<Rightarrow>
               (Some (''failed to record namespace: '' @ err),
                e\<lparr>e_sys := snd (ns_Delete ops namespaceName w), e_db := d\<rparr>)
           | (Inr row, d) \<Rightarrow>
               (None, e\<lparr>e_sys := w, e_db := d,
                        e_out := e_out e @ [Stdout (''Created namespace: '' @ namespaceName)]\<rparr>)))"

definition nsDeleteCmd :: "'w sysops \<Rightarrow> string \<Rightarrow> 'w env \<Rightarrow> string option \<times> 'w env" where
  "nsDeleteCmd ops namespaceName e =
     (case ns_Delete ops namespaceName (e_sys e) of
        (Some err, w) \<Rightarrow> (Some err, e\<lparr>e_sys := w\<rparr>)
      | (None, w) \<Rightarrow>
          (case DeleteNamespace namespaceName (e_db e) of
             Inl err \<Rightarrow>
               (None, e\<lparr>e_sys := w,
                        e_out := e_out e
                          @ [Stderr (''Warning: failed to remove from database: '' @ err),
                             Stdout (''Deleted namespace: '' @ namespaceName)]\<rparr>)
           | Inr d \<Rightarrow>
               (None, e\<lparr>e_sys := w, e_db := d,
                        e_out := e_out e @ [Stdout (''Deleted namespace: '' @ namespaceName)]\<rparr>)))"

subsection \<open>Address commands\<close>

definition ipAddCmd ::
  "'w sysops \<Rightarrow> string \<Rightarrow> string \<Rightarrow> string \<Rightarrow> 'w env \<Rightarrow> string option \<times> 'w env" where
  "ipAddCmd ops ipAddress ipInterface ipNs e =
     (if ipInterface = '''' then (Some ''--interface is required'', e)
      else case addr_Add ops ipAddress ipInterface ipNs (e_sys e) of
        (Some err, w) \<Rightarrow> (Some err, e\<lparr>e_sys := w\<rparr>)
      | (None, w) \<Rightarrow>
          (case CreateIPAddress ipInterface (resolve_ns ipNs (e_db e)) ipAddress (e_db e) of
             (Inl err, d) \<Rightarrow>
               (Some (''failed to record IP address: '' @ err),
                e\<lparr>e_sys := snd (addr_Delete ops ipAddress ipInterface ipNs w), e_db := d\<rparr>)
           | (Inr row, d) \<Rightarrow>
               (None, e\<lparr>e_sys := w, e_db := d,
                        e_out := e_out e @ [Stdout (''Added '' @ ipAddress @ '' to '' @ ipInterface)]\<rparr>)))"

text \<open>
  \<^verbatim>\<open>ipDeleteCmd\<close> ends after the system call: the function has no statement that touches
  \<^verbatim>\<open>Repo\<close>.
\<close>

definition ipDeleteCmd ::
  "'w sysops \<Rightarrow> string \<Rightarrow> string \<Rightarrow> string \<Rightarrow> 'w env \<Rightarrow> string option \<times> 'w env" where
  "ipDeleteCmd ops ipAddress ipInterface ipNs e =
     (if ipInterface = '''' then (Some ''--interface is required'', e)
      else case addr_Delete ops ipAddress ipInterface ipNs (e_sys e) of
        (Some err, w) \<Rightarrow> (Some err, e\<lparr>e_sys := w\<rparr>)
      | (None, w) \<Rightarrow>
          (None, e\<lparr>e_sys := w,
                   e_out := e_out e @ [Stdout (''Removed '' @ ipAddress @ '' from '' @ ipInterface)]\<rparr>))"

text \<open>
  The API handler \<^verbatim>\<open>deleteAddress\<close>, by the id of the record (already parsed from the
  path): an HTTP status and a message. The result of \<^verbatim>\<open>DeleteIPAddress\<close> is dropped.
\<close>

definition deleteAddress :: "'w sysops \<Rightarrow> int \<Rightarrow> 'w env \<Rightarrow> (nat \<times> string) \<times> 'w env" where
  "deleteAddress ops i e =
     (case GetIPAddress i (e_db e) of
        Inr (Some addr) \<Rightarrow>
          (let nsName = (case ip_NsID addr of
                           None \<Rightarrow> ''''
                         | Some n \<Rightarrow> (case GetNamespace n (e_db e) of
                                        Inr (Some ns) \<Rightarrow> ns_Name ns | _ \<Rightarrow> ''''))
           in case addr_Delete ops (ip_Address addr) (ip_InterfaceName addr) nsName (e_sys e) of
                (Some err, w) \<Rightarrow> ((500, err), e\<lparr>e_sys := w\<rparr>)
              | (None, w) \<Rightarrow>
                  ((200, ''address deleted''),
                   e\<lparr>e_sys := w,
                     e_db := (case DeleteIPAddress i (e_db e) of Inr d \<Rightarrow> d | Inl err \<Rightarrow> e_db e)\<rparr>))
      | _ \<Rightarrow> ((404, ''address not found''), e))"

subsection \<open>Pair, route and bridge commands\<close>


definition vethDeleteCmd :: "'w sysops \<Rightarrow> string \<Rightarrow> 'w env \<Rightarrow> string option \<times> 'w env" where
  "vethDeleteCmd ops interfaceName e =
     (case veth_Delete ops interfaceName (e_sys e) of
        (Some err, w) \<Rightarrow> (Some err, e\<lparr>e_sys := w\<rparr>)
      | (None, w) \<Rightarrow>
          (case DeleteVethPair interfaceName (e_db e) of
             Inl err \<Rightarrow>
               (None, e\<lparr>e_sys := w,
                        e_out := e_out e
                          @ [Stderr (''Warning: failed to remove from database: '' @ err),
                             Stdout (''Deleted veth pair: '' @ interfaceName)]\<rparr>)
           | Inr d \<Rightarrow>
               (None, e\<lparr>e_sys := w, e_db := d,
                        e_out := e_out e @ [Stdout (''Deleted veth pair: '' @ interfaceName)]\<rparr>)))"

definition routeAddCmd ::
  "'w sysops \<Rightarrow> string \<Rightarrow> string \<Rightarrow> string \<Rightarrow> string \<Rightarrow> 'w env \<Rightarrow> string option \<times> 'w env" where
  "routeAddCmd ops destinationNetwork routeGateway routeInterface routeNs e =
     (if routeGateway = '''' \<and> routeInterface = ''''
      then (Some ''either --gateway or --interface is required'', e)
      else case route_Add ops destinationNetwork routeGateway routeInterface routeNs (e_sys e) of
        (Some err, w) \<Rightarrow> (Some err, e\<lparr>e_sys := w\<rparr>)
      | (None, w) \<Rightarrow>
          (case CreateRoute (resolve_ns routeNs (e_db e)) destinationNetwork routeGateway
                  routeInterface (e_db e) of
             (Inl err, d) \<Rightarrow>
               (Some (''failed to record route: '' @ err),
                e\<lparr>e_sys := snd (route_Delete ops destinationNetwork routeNs w), e_db := d\<rparr>)
           | (Inr row, d) \<Rightarrow>
               (None, e\<lparr>e_sys := w, e_db := d,
                        e_out := e_out e @ [Stdout (''Added route: '' @ destinationNetwork)]\<rparr>)))"

text \<open>\<^verbatim>\<open>routeDeleteCmd\<close>, like \<^verbatim>\<open>ipDeleteCmd\<close>, has no statement that touches \<^verbatim>\<open>Repo\<close>.\<close>

definition routeDeleteCmd ::
  "'w sysops \<Rightarrow> string \<Rightarrow> string \<Rightarrow> 'w env \<Rightarrow> string option \<times> 'w env" where
  "routeDeleteCmd ops destinationNetwork routeNs e =
     (case route_Delete ops destinationNetwork routeNs (e_sys e) of
        (Some err, w) \<Rightarrow> (Some err, e\<lparr>e_sys := w\<rparr>)
      | (None, w) \<Rightarrow>
          (None, e\<lparr>e_sys := w,
                   e_out := e_out e @ [Stdout (''Deleted route: '' @ destinationNetwork)]\<rparr>))"


definition bridgeDeleteCmd ::
  "'w sysops \<Rightarrow> string \<Rightarrow> string \<Rightarrow> 'w env \<Rightarrow> string option \<times> 'w env" where
  "bridgeDeleteCmd ops bridgeName bridgeNs e =
     (case bridge_Delete ops bridgeName bridgeNs (e_sys e) of
        (Some err, w) \<Rightarrow> (Some err, e\<lparr>e_sys := w\<rparr>)
      | (None, w) \<Rightarrow>
          (case DeleteBridge bridgeName (e_db e) of
             Inl err \<Rightarrow>
               (None, e\<lparr>e_sys := w,
                        e_out := e_out e
                          @ [Stderr (''Warning: failed to remove from database: '' @ err),
                             Stdout (''Deleted bridge: '' @ bridgeName)]\<rparr>)
           | Inr d \<Rightarrow>
               (None, e\<lparr>e_sys := w, e_db := d,
                        e_out := e_out e @ [Stdout (''Deleted bridge: '' @ bridgeName)]\<rparr>)))"

subsection \<open>Tunnel and bridge port commands\<close>






definition greDeleteCmd ::
  "'w sysops \<Rightarrow> string \<Rightarrow> string \<Rightarrow> 'w env \<Rightarrow> string option \<times> 'w env" where
  "greDeleteCmd ops tunnelName greNs e =
     (case gre_Delete ops tunnelName greNs (e_sys e) of
        (Some err, w) \<Rightarrow> (Some err, e\<lparr>e_sys := w\<rparr>)
      | (None, w) \<Rightarrow>
          (case DeleteGRETunnel tunnelName (e_db e) of
             Inl err \<Rightarrow>
               (None, e\<lparr>e_sys := w,
                        e_out := e_out e
                          @ [Stderr (''Warning: failed to remove from database: '' @ err),
                             Stdout (''Deleted GRE tunnel: '' @ tunnelName)]\<rparr>)
           | Inr d \<Rightarrow>
               (None, e\<lparr>e_sys := w, e_db := d,
                        e_out := e_out e @ [Stdout (''Deleted GRE tunnel: '' @ tunnelName)]\<rparr>)))"

text \<open>
  Removing a port: the record is removed only when the bridge has a record, and the result
  of \<^verbatim>\<open>RemoveBridgePort\<close> is dropped without a warning.
\<close>

definition forget_port :: "string \<Rightarrow> string \<Rightarrow> store \<Rightarrow> store" where
  "forget_port bridgeName interfaceName s =
     (case GetBridgeByName bridgeName s of
        Inr (Some bridgeRecord) \<Rightarrow>
          (case RemoveBridgePort (br_ID bridgeRecord) interfaceName s of
             Inr d \<Rightarrow> d
           | Inl err \<Rightarrow> s)
      | _ \<Rightarrow> s)"

definition bridgeRemovePortCmd ::
  "'w sysops \<Rightarrow> string \<Rightarrow> string \<Rightarrow> string \<Rightarrow> 'w env \<Rightarrow> string option \<times> 'w env" where
  "bridgeRemovePortCmd ops bridgeName interfaceName bridgeNs e =
     (case bridge_RemovePort ops interfaceName bridgeNs (e_sys e) of
        (Some err, w) \<Rightarrow> (Some err, e\<lparr>e_sys := w\<rparr>)
      | (None, w) \<Rightarrow>
          (None, e\<lparr>e_sys := w, e_db := forget_port bridgeName interfaceName (e_db e),
                   e_out := e_out e @ [Stdout (''Removed '' @ interfaceName @ '' from bridge ''
                                                @ bridgeName)]\<rparr>))"

section \<open>Switching the thread's namespace (internal/netns/namespace.go)\<close>

text \<open>
  The state of the operating system as \<^verbatim>\<open>Manager\<close> sees it: the namespace the thread is
  in, the named namespaces (the bind mounts under \<^verbatim>\<open>/var/run/netns\<close>), and the number
  of the next namespace the kernel makes. A namespace handle is the number of its
  namespace. Every call of the libraries \<^verbatim>\<open>netns\<close>, \<^verbatim>\<open>netlink\<close> and \<^verbatim>\<open>os\<close> can fail, with
  an error text of the library's own; the list \<open>faults\<close> scripts this: each call takes
  the head of the list, \<open>Some e\<close> makes it fail with the error \<open>e\<close>, and an empty list is
  no failure. So every error branch of the source is a branch of the model, whatever the
  text of the error. \<open>libcalls\<close> is a history kept for stating properties: the library
  calls made so far, each with the error it returned.
\<close>

datatype libcall =
    Lib_Get
  | Lib_GetFromPath string
  | Lib_Set nat
  | Lib_New
  | Lib_MkdirAll
  | Lib_Create string
  | Lib_Remove string
  | Lib_mountBind nat string
  | Lib_LinkByName string
  | Lib_LinkSetUp string

record thread =
  cur_ns :: nat
  named :: "(string \<times> nat) list"
  next_ns :: nat
  faults :: "string option list"
  libcalls :: "(libcall \<times> string option) list"

text \<open>A library call that changes nothing the model keeps: it fails or not, by the script.\<close>

definition syscall :: "libcall \<Rightarrow> thread \<Rightarrow> string option \<times> thread" where
  "syscall c t =
     (let r = (case faults t of [] \<Rightarrow> None | f # fs \<Rightarrow> f)
      in (r, t\<lparr>faults := tl (faults t), libcalls := libcalls t @ [(c, r)]\<rparr>))"

definition netns_Get :: "thread \<Rightarrow> (string + nat) \<times> thread" where
  "netns_Get t =
     (case syscall Lib_Get t of
        (Some err, t') \<Rightarrow> (Inl err, t')
      | (None, t') \<Rightarrow> (Inr (cur_ns t), t'))"

text \<open>\<^verbatim>\<open>netns.Set\<close>: the thread enters the namespace, or the call fails and it stays.\<close>

definition netns_Set :: "nat \<Rightarrow> thread \<Rightarrow> string option \<times> thread" where
  "netns_Set h t =
     (case syscall (Lib_Set h) t of
        (Some err, t') \<Rightarrow> (Some err, t')
      | (None, t') \<Rightarrow> (None, t'\<lparr>cur_ns := h\<rparr>))"

text \<open>\<^verbatim>\<open>netns.New\<close> makes a namespace and puts the thread into it.\<close>

definition netns_New :: "thread \<Rightarrow> (string + nat) \<times> thread" where
  "netns_New t =
     (case syscall Lib_New t of
        (Some err, t') \<Rightarrow> (Inl err, t')
      | (None, t') \<Rightarrow> (Inr (next_ns t), t'\<lparr>cur_ns := next_ns t, next_ns := next_ns t + 1\<rparr>))"

text \<open>
  \<^verbatim>\<open>GetHandle\<close> is \<^verbatim>\<open>netns.GetFromPath\<close> on the file of a named namespace; with no such
  file the error is that of the \<^verbatim>\<open>open\<close> system call.
\<close>

definition GetHandle :: "string \<Rightarrow> thread \<Rightarrow> (string + nat) \<times> thread" where
  "GetHandle namespaceName t =
     (let r = (case faults t of
                 Some err # fs \<Rightarrow> Inl err
               | _ \<Rightarrow> (case map_of (named t) namespaceName of
                         None \<Rightarrow> Inl ''no such file or directory''
                       | Some h \<Rightarrow> Inr h))
      in (r, t\<lparr>faults := tl (faults t),
               libcalls := libcalls t @ [(Lib_GetFromPath namespaceName,
                                          case r of Inl err \<Rightarrow> Some err | Inr h \<Rightarrow> None)]\<rparr>))"

text \<open>\<^verbatim>\<open>mountBind\<close> names the namespace.\<close>

definition mountBind :: "nat \<Rightarrow> string \<Rightarrow> thread \<Rightarrow> string option \<times> thread" where
  "mountBind h namespaceName t =
     (case syscall (Lib_mountBind h namespaceName) t of
        (Some err, t') \<Rightarrow> (Some err, t')
      | (None, t') \<Rightarrow> (None, t'\<lparr>named := (namespaceName, h) # named t\<rparr>))"

text \<open>
  \<^verbatim>\<open>RunInNamespace\<close>. The function to run is any function on the state that returns an
  error or \<^verbatim>\<open>nil\<close>; a Go panic inside it is outside the model.
\<close>

definition RunInNamespace ::
  "string \<Rightarrow> (thread \<Rightarrow> string option \<times> thread) \<Rightarrow> thread \<Rightarrow> string option \<times> thread" where
  "RunInNamespace namespaceName functionToExecute t =
     (case netns_Get t of
        (Inl err, t1) \<Rightarrow> (Some (''failed to get current namespace: '' @ err), t1)
      | (Inr originalNamespace, t1) \<Rightarrow>
          (case GetHandle namespaceName t1 of
             (Inl err, t2) \<Rightarrow>
               (Some (''failed to get namespace \"'' @ namespaceName @ ''\": '' @ err), t2)
           | (Inr targetNamespace, t2) \<Rightarrow>
               (case netns_Set targetNamespace t2 of
                  (Some err, t3) \<Rightarrow> (Some (''failed to enter namespace: '' @ err), t3)
                | (None, t3) \<Rightarrow>
                    (case functionToExecute t3 of
                       (executionError, t4) \<Rightarrow>
                         (case netns_Set originalNamespace t4 of
                            (Some err, t5) \<Rightarrow>
                              (Some (''failed to restore namespace: '' @ err), t5)
                          | (None, t5) \<Rightarrow> (executionError, t5))))))"

text \<open>
  \<^verbatim>\<open>Manager.Create\<close>. On the two failure paths after \<^verbatim>\<open>netns.New\<close> the result of
  \<^verbatim>\<open>netns.Set(originalNamespace)\<close> is dropped, as is that of \<^verbatim>\<open>os.Remove\<close> and of the
  two calls that raise \<open>lo\<close>.
\<close>

definition Manager_Create :: "string \<Rightarrow> thread \<Rightarrow> string option \<times> thread" where
  "Manager_Create namespaceName t =
     (case netns_Get t of
        (Inl err, t1) \<Rightarrow> (Some (''failed to get current namespace: '' @ err), t1)
      | (Inr originalNamespace, t1) \<Rightarrow>
          (case syscall Lib_MkdirAll t1 of
             (Some err, t2) \<Rightarrow> (Some (''failed to create netns directory: '' @ err), t2)
           | (None, t2) \<Rightarrow>
               (case netns_New t2 of
                  (Inl err, t3) \<Rightarrow> (Some (''failed to create namespace: '' @ err), t3)
                | (Inr newNamespace, t3) \<Rightarrow>
                    (case syscall (Lib_Create namespaceName) t3 of
                       (Some err, t4) \<Rightarrow>
                         (Some (''failed to create namespace file: '' @ err),
                          snd (netns_Set originalNamespace t4))
                     | (None, t4) \<Rightarrow>
                         (case mountBind newNamespace namespaceName t4 of
                            (Some err, t5) \<Rightarrow>
                              (Some (''failed to bind mount namespace: '' @ err),
                               snd (netns_Set originalNamespace
                                      (snd (syscall (Lib_Remove namespaceName) t5))))
                          | (None, t5) \<Rightarrow>
                              (let t6 = (case syscall (Lib_LinkByName ''lo'') t5 of
                                           (None, u) \<Rightarrow> snd (syscall (Lib_LinkSetUp ''lo'') u)
                                         | (Some err, u) \<Rightarrow> u)
                               in case netns_Set originalNamespace t6 of
                                    (Some err, t7) \<Rightarrow>
                                      (Some (''failed to restore original namespace: '' @ err), t7)
                                  | (None, t7) \<Rightarrow> (None, t7)))))))"

section \<open>Creating a pair of interfaces (\<^verbatim>\<open>VethManager.Create\<close>)\<close>

text \<open>
  The calls of the \<^verbatim>\<open>netlink\<close> library that \<^verbatim>\<open>VethManager\<close> makes, as parameters: creating
  and deleting the pair (given by its two names), looking an interface up in the host
  namespace, opening a named namespace, and moving an interface into it. \<open>'l\<close> is the
  type of a link, \<open>'h\<close> that of a namespace handle.
\<close>

record ('w, 'l, 'h) netlink =
  LinkAdd_veth :: "string \<Rightarrow> string \<Rightarrow> 'w \<Rightarrow> string option \<times> 'w"
  LinkDel_veth :: "string \<Rightarrow> string \<Rightarrow> 'w \<Rightarrow> string option \<times> 'w"
  LinkByName :: "string \<Rightarrow> 'w \<Rightarrow> string + 'l"
  NsHandle :: "string \<Rightarrow> 'w \<Rightarrow> string + 'h"
  LinkSetNsFd :: "'l \<Rightarrow> 'h \<Rightarrow> 'w \<Rightarrow> string option \<times> 'w"

definition moveToNamespace ::
  "('w, 'l, 'h) netlink \<Rightarrow> string \<Rightarrow> string \<Rightarrow> 'w \<Rightarrow> string option \<times> 'w" where
  "moveToNamespace lib interfaceName namespaceName w =
     (case LinkByName lib interfaceName w of
        Inl err \<Rightarrow> (Some (''failed to find interface \"'' @ interfaceName @ ''\": '' @ err), w)
      | Inr networkLink \<Rightarrow>
          (case NsHandle lib namespaceName w of
             Inl err \<Rightarrow>
               (Some (''failed to get namespace \"'' @ namespaceName @ ''\": '' @ err), w)
           | Inr namespaceHandle \<Rightarrow>
               (case LinkSetNsFd lib networkLink namespaceHandle w of
                  (Some err, w') \<Rightarrow>
                    (Some (''failed to move interface to namespace: '' @ err), w')
                | (None, w') \<Rightarrow> (None, w'))))"

text \<open>
  \<^verbatim>\<open>Create\<close>: after a failed move \<^verbatim>\<open>netlink.LinkDel(vethPair)\<close> is called and its result
  dropped; the error returned is that of the move.
\<close>

definition VethManager_Create ::
  "('w, 'l, 'h) netlink \<Rightarrow> string \<Rightarrow> string \<Rightarrow> string \<Rightarrow> string \<Rightarrow> 'w \<Rightarrow> string option \<times> 'w" where
  "VethManager_Create lib interfaceName peerInterfaceName namespaceName peerNamespaceName w =
     (case LinkAdd_veth lib interfaceName peerInterfaceName w of
        (Some err, w1) \<Rightarrow> (Some (''failed to create veth pair: '' @ err), w1)
      | (None, w1) \<Rightarrow>
          (case (if namespaceName \<noteq> '''' then moveToNamespace lib interfaceName namespaceName w1
                 else (None, w1)) of
             (Some err, w2) \<Rightarrow>
               (Some err, snd (LinkDel_veth lib interfaceName peerInterfaceName w2))
           | (None, w2) \<Rightarrow>
               (case (if peerNamespaceName \<noteq> ''''
                      then moveToNamespace lib peerInterfaceName peerNamespaceName w2
                      else (None, w2)) of
                  (Some err, w3) \<Rightarrow>
                    (Some err, snd (LinkDel_veth lib interfaceName peerInterfaceName w3))
                | (None, w3) \<Rightarrow> (None, w3))))"

section \<open>Example stores\<close>

definition empty_store :: store where
  "empty_store = \<lparr>namespaces = [], veth_pairs = [], ip_addresses = [], routes = [],
     bridges = [], bridge_ports = [], gre_tunnels = [],
     seq_namespaces = 0, seq_veth_pairs = 0, seq_ip_addresses = 0, seq_routes = 0,
     seq_bridges = 0, seq_bridge_ports = 0, seq_gre_tunnels = 0, now = 0, failing = False,
     breaking = False\<rparr>"

text \<open>
  The scenario of the specification's cascade test: namespace \<open>ns1\<close> owns one address and
  one route and is one end of the pair \<open>v0\<close>/\<open>v1\<close> (\<open>v0\<close> in \<open>ns1\<close>, \<open>v1\<close> in \<open>ns2\<close>), as
  \<^verbatim>\<open>veth create v0 --peer v1 --ns ns1 --peer-ns ns2\<close> records it.
\<close>

definition rec_ns1 :: Namespace where
  "rec_ns1 = \<lparr>ns_ID = 1, ns_Name = ''ns1'', ns_CreatedAt = 0, ns_Metadata = ''''\<rparr>"

definition rec_ns2 :: Namespace where
  "rec_ns2 = \<lparr>ns_ID = 2, ns_Name = ''ns2'', ns_CreatedAt = 0, ns_Metadata = ''''\<rparr>"

definition rec_v0 :: VethPair where
  "rec_v0 = \<lparr>vp_ID = 1, vp_Name = ''v0'', vp_PeerName = ''v1'', vp_NsID = Some 1,
              vp_PeerNsID = Some 2, vp_CreatedAt = 0\<rparr>"

definition rec_addr :: IPAddress where
  "rec_addr = \<lparr>ip_ID = 1, ip_InterfaceName = ''v0'', ip_NsID = Some 1,
                ip_Address = ''10.0.0.1/24'', ip_CreatedAt = 0\<rparr>"

definition rec_route :: Route where
  "rec_route = \<lparr>rt_ID = 1, rt_NsID = Some 1, rt_Destination = ''default'',
                 rt_Gateway = ''10.0.0.254'', rt_InterfaceName = '''', rt_CreatedAt = 0\<rparr>"

definition cascade_scenario :: store where
  "cascade_scenario = empty_store\<lparr>namespaces := [rec_ns1, rec_ns2], veth_pairs := [rec_v0],
      ip_addresses := [rec_addr], routes := [rec_route], seq_namespaces := 2,
      seq_veth_pairs := 1, seq_ip_addresses := 1, seq_routes := 1\<rparr>"

text \<open>A second pair, whose peer end is the one in \<open>ns1\<close>.\<close>

definition rec_w0 :: VethPair where
  "rec_w0 = \<lparr>vp_ID = 2, vp_Name = ''w0'', vp_PeerName = ''w1'', vp_NsID = Some 2,
              vp_PeerNsID = Some 1, vp_CreatedAt = 0\<rparr>"

definition two_pairs :: store where
  "two_pairs = cascade_scenario\<lparr>veth_pairs := [rec_v0, rec_w0], seq_veth_pairs := 2\<rparr>"

text \<open>A store that records the namespace \<open>a\<close> only.\<close>

definition rec_a :: Namespace where
  "rec_a = \<lparr>ns_ID = 1, ns_Name = ''a'', ns_CreatedAt = 3, ns_Metadata = ''''\<rparr>"

definition store_a :: store where
  "store_a = empty_store\<lparr>namespaces := [rec_a], seq_namespaces := 1, now := 4\<rparr>"

text \<open>The specification's reconciliation example: the store records \<open>y\<close> and \<open>z\<close>.\<close>

definition rec_y :: Namespace where
  "rec_y = \<lparr>ns_ID = 1, ns_Name = ''y'', ns_CreatedAt = 5, ns_Metadata = ''''\<rparr>"

definition rec_z :: Namespace where
  "rec_z = \<lparr>ns_ID = 2, ns_Name = ''z'', ns_CreatedAt = 7, ns_Metadata = ''''\<rparr>"

definition store_yz :: store where
  "store_yz = empty_store\<lparr>namespaces := [rec_z, rec_y], seq_namespaces := 2\<rparr>"

section \<open>A small system for the examples\<close>

text \<open>
  A concrete \<^verbatim>\<open>ip\<close> tool over a small picture of the kernel: the named namespaces, the
  interfaces of each namespace (\<open>None\<close> is the host), the addresses, the routes (one per
  namespace and destination) and the bridge memberships. A command fails where the kernel
  refuses it: a name that exists already, an interface or a namespace that does not. It
  stands for the system in the examples and is no part of the model of the repository.
\<close>

record kern =
  k_netns :: "string list"
  k_links :: "(string option \<times> string) list"
  k_addrs :: "(string option \<times> string \<times> string) list"
  k_routes :: "(string option \<times> string) list"
  k_masters :: "(string option \<times> string \<times> string) list"

definition ns_exists :: "kern \<Rightarrow> string option \<Rightarrow> bool" where
  "ns_exists k ns = (case ns of None \<Rightarrow> True | Some n \<Rightarrow> n \<in> set (k_netns k))"

fun toy_ip :: "ipcmd \<Rightarrow> kern \<Rightarrow> bool \<times> kern" where
  "toy_ip (NetnsListGrep n) k = (n \<in> set (k_netns k), k)"
| "toy_ip (NetnsAdd n) k =
     (if n \<in> set (k_netns k) then (False, k)
      else (True, k\<lparr>k_netns := k_netns k @ [n], k_links := k_links k @ [(Some n, ''lo'')]\<rparr>))"
| "toy_ip (LinkSetUp ns d) k = ((ns, d) \<in> set (k_links k), k)"
| "toy_ip (LinkShow ns d) k = ((ns, d) \<in> set (k_links k), k)"
| "toy_ip (LinkAddVeth a b) k =
     (if (None, a) \<in> set (k_links k) \<or> (None, b) \<in> set (k_links k) \<or> a = b then (False, k)
      else (True, k\<lparr>k_links := k_links k @ [(None, a), (None, b)]\<rparr>))"
| "toy_ip (LinkSetNetns d n) k =
     (if (None, d) \<in> set (k_links k) \<and> n \<in> set (k_netns k) \<and> (Some n, d) \<notin> set (k_links k)
      then (True, k\<lparr>k_links := map (\<lambda>l. if l = (None, d) then (Some n, d) else l) (k_links k)\<rparr>)
      else (False, k))"
| "toy_ip (AddrShowGrep ns d a) k = ((ns, d, a) \<in> set (k_addrs k), k)"
| "toy_ip (AddrAdd ns d a) k =
     (if (ns, d) \<in> set (k_links k) \<and> (ns, d, a) \<notin> set (k_addrs k)
      then (True, k\<lparr>k_addrs := k_addrs k @ [(ns, d, a)]\<rparr>)
      else (False, k))"
| "toy_ip (RouteAdd ns dst via dev) k =
     (if ns_exists k ns \<and> (ns, dst) \<notin> set (k_routes k)
         \<and> (case dev of None \<Rightarrow> True | Some d \<Rightarrow> (ns, d) \<in> set (k_links k))
      then (True, k\<lparr>k_routes := k_routes k @ [(ns, dst)]\<rparr>)
      else (False, k))"
| "toy_ip (LinkAddBridge ns b) k =
     (if ns_exists k ns \<and> (ns, b) \<notin> set (k_links k)
      then (True, k\<lparr>k_links := k_links k @ [(ns, b)]\<rparr>)
      else (False, k))"
| "toy_ip (LinkSetMaster ns d b) k =
     (if (ns, d) \<in> set (k_links k) \<and> (ns, b) \<in> set (k_links k)
      then (True, k\<lparr>k_masters := filter (\<lambda>m. (fst m, fst (snd m)) \<noteq> (ns, d)) (k_masters k)
                                  @ [(ns, d, b)]\<rparr>)
      else (False, k))"
| "toy_ip (LinkAddGre ns t l r key hops) k =
     (if ns_exists k ns \<and> (ns, t) \<notin> set (k_links k)
      then (True, k\<lparr>k_links := k_links k @ [(ns, t)]\<rparr>)
      else (False, k))"

definition empty_kern :: kern where
  "empty_kern = \<lparr>k_netns = [], k_links = [], k_addrs = [], k_routes = [], k_masters = []\<rparr>"

text \<open>A host on which an interface \<open>v1\<close> is left over from earlier work.\<close>

definition stale_kern :: kern where
  "stale_kern = empty_kern\<lparr>k_links := [(None, ''v1'')]\<rparr>"

text \<open>
  A store with a namespace \<open>blue\<close>, a bridge \<open>br0\<close>, a pair \<open>v0\<close>/\<open>v1\<close> and the address
  \<open>10.0.0.1/24\<close> on \<open>br0\<close>, the last three in the host namespace.
\<close>

definition blocked_db :: store where
  "blocked_db = empty_store\<lparr>
     namespaces := [\<lparr>ns_ID = 1, ns_Name = ''blue'', ns_CreatedAt = 0, ns_Metadata = ''''\<rparr>],
     bridges := [\<lparr>br_ID = 1, br_Name = ''br0'', br_NsID = None, br_CreatedAt = 0\<rparr>],
     veth_pairs := [\<lparr>vp_ID = 1, vp_Name = ''v0'', vp_PeerName = ''v1'', vp_NsID = None,
                     vp_PeerNsID = None, vp_CreatedAt = 0\<rparr>],
     ip_addresses := [\<lparr>ip_ID = 1, ip_InterfaceName = ''br0'', ip_NsID = None,
                       ip_Address = ''10.0.0.1/24'', ip_CreatedAt = 0\<rparr>]\<rparr>"

text \<open>A store with the namespace \<open>ns1\<close> and a default route in it.\<close>

definition route_db :: store where
  "route_db = empty_store\<lparr>namespaces := [rec_ns1], routes := [rec_route]\<rparr>"

text \<open>A store with an address on an interface that no record creates.\<close>

definition lost_addr_db :: store where
  "lost_addr_db = empty_store\<lparr>
     ip_addresses := [\<lparr>ip_ID = 1, ip_InterfaceName = ''eth9'', ip_NsID = None,
                       ip_Address = ''10.0.0.9/24'', ip_CreatedAt = 0\<rparr>]\<rparr>"

text \<open>A run of \<^verbatim>\<open>restore_all\<close> on a system, and a second run on what the first left.\<close>

definition first_run :: "'w iptool \<Rightarrow> store \<Rightarrow> 'w \<Rightarrow> 'w sh outcome" where
  "first_run tool db w = restore_all tool db (fresh_run w)"

definition second_run :: "'w iptool \<Rightarrow> store \<Rightarrow> 'w \<Rightarrow> 'w sh outcome" where
  "second_run tool db w = restore_all tool db (fresh_run (world (final (first_run tool db w))))"

text \<open>
  A system on which a namespace \<open>ns1\<close>, a bridge \<open>br0\<close>, an interface \<open>v0\<close> with an
  address and a tunnel \<open>gre1\<close> are live.
\<close>

definition full_kern :: kern where
  "full_kern = \<lparr>k_netns = [''ns1''],
     k_links = [(Some ''ns1'', ''lo''), (None, ''br0''), (None, ''v0''), (None, ''v1''),
                (Some ''ns1'', ''gre1'')],
     k_addrs = [(None, ''v0'', ''10.0.0.1/24'')], k_routes = [], k_masters = []\<rparr>"


section \<open>Managers and a netlink library for the examples\<close>

text \<open>
  Managers over a small system for the examples: the system is the list of what is live.
  A create call fails when its resource is live already, a delete call when it is not. A
  command of the Go program names the host namespace by the empty string. The system
  stands for the kernel in the examples and is no part of the model of the repository.
\<close>

datatype live =
  LiveNs string
| LivePair string string
| LiveAddr string string string
| LiveRoute string string
| LiveBridge string string
| LivePort string string
| LiveGre string string

definition put :: "live \<Rightarrow> live list \<Rightarrow> string option \<times> live list" where
  "put r w = (if r \<in> set w then (Some ''file exists'', w) else (None, w @ [r]))"

definition take_out :: "(live \<Rightarrow> bool) \<Rightarrow> live list \<Rightarrow> string option \<times> live list" where
  "take_out P w =
     (if list_ex P w then (None, filter (\<lambda>r. \<not> P r) w) else (Some ''no such device'', w))"

definition toy_ops :: "live list sysops" where
  "toy_ops =
     \<lparr>ns_Create = (\<lambda>n. put (LiveNs n)),
      ns_Delete = (\<lambda>n. take_out (\<lambda>r. r = LiveNs n)),
      veth_Create = (\<lambda>a b ns pns. put (LivePair a b)),
      veth_Delete = (\<lambda>a. take_out (\<lambda>r. case r of LivePair x y \<Rightarrow> x = a | _ \<Rightarrow> False)),
      addr_Add = (\<lambda>a i ns. put (LiveAddr ns i a)),
      addr_Delete = (\<lambda>a i ns. take_out (\<lambda>r. r = LiveAddr ns i a)),
      route_Add = (\<lambda>d g i ns. put (LiveRoute ns d)),
      route_Delete = (\<lambda>d ns. take_out (\<lambda>r. r = LiveRoute ns d)),
      bridge_Create = (\<lambda>b ns. put (LiveBridge ns b)),
      bridge_Delete = (\<lambda>b ns. take_out (\<lambda>r. r = LiveBridge ns b)),
      bridge_AddPort = (\<lambda>b i ns w.
         if LiveBridge ns b \<in> set w then put (LivePort b i) w else (Some ''Link not found'', w)),
      bridge_RemovePort = (\<lambda>i ns. take_out (\<lambda>r. case r of LivePort b x \<Rightarrow> x = i | _ \<Rightarrow> False)),
      gre_CreateWithOptions = (\<lambda>c. put (LiveGre (cfg_Namespace c) (cfg_Name c))),
      gre_CreatePeerTunnels = (\<lambda>ns1 ip1 tip1 ns2 ip2 tip2 n w.
         case put (LiveGre ns1 (n @ ''-1'')) w of
           (Some err, w1) \<Rightarrow> (Some err, w1)
         | (None, w1) \<Rightarrow>
             (case put (LiveGre ns2 (n @ ''-2'')) w1 of
                (Some err, w2) \<Rightarrow> (Some err, w)
              | (None, w2) \<Rightarrow> (None, w2))),
      gre_Delete = (\<lambda>t ns. take_out (\<lambda>r. r = LiveGre ns t))\<rparr>"





text \<open>An empty host and an empty store.\<close>

definition addr_env :: "live list env" where
  "addr_env = \<lparr>e_sys = [], e_db = empty_store, e_out = []\<rparr>"

text \<open>An empty host; the store already records a namespace \<open>a\<close>.\<close>

definition dup_env :: "live list env" where
  "dup_env = \<lparr>e_sys = [], e_db = store_a, e_out = []\<rparr>"

text \<open>
  A namespace \<open>a\<close>, a pair \<open>v0\<close>/\<open>v1\<close>, a bridge \<open>br0\<close> with the port \<open>v0\<close> and a
  tunnel \<open>gre1\<close>, all in the host namespace: as records and as live resources.
\<close>

definition five_store :: store where
  "five_store = store_a\<lparr>
     veth_pairs := [\<lparr>vp_ID = 1, vp_Name = ''v0'', vp_PeerName = ''v1'', vp_NsID = None,
                     vp_PeerNsID = None, vp_CreatedAt = 3\<rparr>],
     bridges := [\<lparr>br_ID = 1, br_Name = ''br0'', br_NsID = None, br_CreatedAt = 3\<rparr>],
     bridge_ports := [\<lparr>bp_ID = 1, bp_BridgeID = 1, bp_InterfaceName = ''v0'', bp_CreatedAt = 3\<rparr>],
     gre_tunnels := [\<lparr>gre_ID = 1, gre_Name = ''gre1'', gre_LocalIP = ''10.0.0.1'',
                      gre_RemoteIP = ''10.0.0.2'', gre_Key = 0, gre_TTL = 0, gre_NsID = None,
                      gre_CreatedAt = 3\<rparr>],
     seq_veth_pairs := 1, seq_bridges := 1, seq_bridge_ports := 1, seq_gre_tunnels := 1\<rparr>"

definition five_live :: "live list" where
  "five_live = [LiveNs ''a'', LivePair ''v0'' ''v1'', LiveBridge '''' ''br0'',
                LivePort ''br0'' ''v0'', LiveGre '''' ''gre1'']"

text \<open>The five recorded and none live; live with a failing store; live and recorded.\<close>

definition gone_env :: "live list env" where
  "gone_env = \<lparr>e_sys = [], e_db = five_store, e_out = []\<rparr>"

definition lost_env :: "live list env" where
  "lost_env = \<lparr>e_sys = five_live, e_db = five_store\<lparr>failing := True\<rparr>, e_out = []\<rparr>"

definition both_env :: "live list env" where
  "both_env = \<lparr>e_sys = five_live, e_db = five_store, e_out = []\<rparr>"

text \<open>
  A thread in namespace 0 on a host with the named namespace \<open>ns1\<close> (number 1); the
  fourth library call fails.
\<close>

definition thread0 :: thread where
  "thread0 = \<lparr>cur_ns = 0, named = [(''ns1'', 1)], next_ns = 2,
               faults = [None, None, None, Some ''operation not permitted''],
               libcalls = []\<rparr>"

text \<open>
  A netlink library over pairs of interfaces: each pair is its two ends, each end a
  namespace (\<open>None\<close> is the host) and a name. Lookups and \<^verbatim>\<open>LinkDel\<close> act in the host
  namespace, where the calling thread is; deleting one end deletes the pair.
\<close>

record vk =
  vk_netns :: "string list"
  vk_pairs :: "((string option \<times> string) \<times> (string option \<times> string)) list"

definition vk_ends :: "vk \<Rightarrow> (string option \<times> string) list" where
  "vk_ends w = concat (map (\<lambda>p. [fst p, snd p]) (vk_pairs w))"

definition toy_netlink :: "(vk, string, string) netlink" where
  "toy_netlink =
     \<lparr>LinkAdd_veth = (\<lambda>a b w.
        if (None, a) \<in> set (vk_ends w) \<or> (None, b) \<in> set (vk_ends w) \<or> a = b
        then (Some ''file exists'', w)
        else (None, w\<lparr>vk_pairs := vk_pairs w @ [((None, a), (None, b))]\<rparr>)),
      LinkDel_veth = (\<lambda>a b w.
        if (None, a) \<in> set (vk_ends w)
        then (None, w\<lparr>vk_pairs := filter (\<lambda>p. fst p \<noteq> (None, a) \<and> snd p \<noteq> (None, a))
                                     (vk_pairs w)\<rparr>)
        else (Some ''no such device'', w)),
      LinkByName = (\<lambda>n w. if (None, n) \<in> set (vk_ends w) then Inr n else Inl ''Link not found''),
      NsHandle = (\<lambda>ns w. if ns \<in> set (vk_netns w) then Inr ns
                          else Inl ''no such file or directory''),
      LinkSetNsFd = (\<lambda>l h w.
        if (None, l) \<in> set (vk_ends w) \<and> (Some h, l) \<notin> set (vk_ends w)
        then (None, w\<lparr>vk_pairs :=
                map (\<lambda>p. (if fst p = (None, l) then (Some h, l) else fst p,
                          if snd p = (None, l) then (Some h, l) else snd p)) (vk_pairs w)\<rparr>)
        else (Some ''file exists'', w))\<rparr>"

definition vk_ns1 :: vk where
  "vk_ns1 = \<lparr>vk_netns = [''ns1''], vk_pairs = []\<rparr>"

section \<open>Deleting a namespace record\<close>

lemma refers_single [simp]: "refers [i] r = (r = Some i)"
  by (cases r) (auto simp: refers_def)

text \<open>Names are unique, so one row is deleted: the record of that name.\<close>

lemma dead_ids:
  assumes "distinct (map ns_Name xs)" and "n \<in> set xs"
  shows "map ns_ID (filter (\<lambda>m. ns_Name m = ns_Name n) xs) = [ns_ID n]"
  using assms
proof (induction xs)
  case Nil
  then show ?case by simp
next
  case (Cons x xs)
  show ?case
  proof (cases "x = n")
    case True
    with Cons.prems have "filter (\<lambda>m. ns_Name m = ns_Name n) xs = []"
      by (force simp: filter_empty_conv image_iff)
    with True show ?thesis by simp
  next
    case False
    with Cons.prems have "n \<in> set xs" by simp
    moreover from this Cons.prems have "ns_Name x \<noteq> ns_Name n" by force
    ultimately show ?thesis using Cons by simp
  qed
qed

text \<open>The UNIQUE constraint is kept by the only operation that inserts a namespace.\<close>

lemma CreateNamespace_keeps_names_distinct:
  assumes "distinct (map ns_Name (namespaces s))"
  shows "distinct (map ns_Name (namespaces (snd (CreateNamespace name metadata s))))"
  using assms by (auto simp: CreateNamespace_def Let_def)

text \<open>
  Claim C1, as the specification states it, fails on the schema: in the specification's
  own scenario, deleting \<open>ns1\<close> deletes the record of the pair \<open>v0\<close>/\<open>v1\<close> (whose
  \<^verbatim>\<open>ns_id\<close> is \<open>ns1\<close>) together with the address and the route; the pair does not survive
  with a nulled reference.
\<close>

theorem DeleteNamespace_deletes_pair_counterexample:
  "DeleteNamespace ''ns1'' cascade_scenario =
     Inr (cascade_scenario\<lparr>namespaces := [rec_ns2], veth_pairs := [],
            ip_addresses := [], routes := []\<rparr>)"
  by (simp add: DeleteNamespace_def cascade_delete_def cascade_scenario_def empty_store_def
      rec_ns1_def rec_ns2_def rec_v0_def rec_addr_def rec_route_def refers_def null_peer_def)

text \<open>
  Claim C1, amended: deleting the record of a namespace deletes every Address, Route,
  Bridge and Tunnel record that references it, and every VirtualLinkPair record whose
  first end (\<^verbatim>\<open>ns_id\<close>) references it; a VirtualLinkPair record that references it only
  on its peer end (\<^verbatim>\<open>peer_ns_id\<close>) survives with that reference set to null and its
  first end's reference unchanged; every other record of these tables is kept as it is.
\<close>

theorem DeleteNamespace_cascade:
  assumes "DeleteNamespace name s = Inr s'"
    and "distinct (map ns_Name (namespaces s))"
    and "n \<in> set (namespaces s)" and "ns_Name n = name"
  shows "ip_addresses s' = filter (\<lambda>a. ip_NsID a \<noteq> Some (ns_ID n)) (ip_addresses s) \<and>
         routes s' = filter (\<lambda>r. rt_NsID r \<noteq> Some (ns_ID n)) (routes s) \<and>
         bridges s' = filter (\<lambda>b. br_NsID b \<noteq> Some (ns_ID n)) (bridges s) \<and>
         gre_tunnels s' = filter (\<lambda>t. gre_NsID t \<noteq> Some (ns_ID n)) (gre_tunnels s) \<and>
         veth_pairs s' =
           map (\<lambda>v. if vp_PeerNsID v = Some (ns_ID n) then v\<lparr>vp_PeerNsID := None\<rparr> else v)
             (filter (\<lambda>v. vp_NsID v \<noteq> Some (ns_ID n)) (veth_pairs s))"
proof -
  from assms(2-4)
  have dead: "map ns_ID (filter (\<lambda>m. ns_Name m = name) (namespaces s)) = [ns_ID n]"
    using dead_ids[of "namespaces s" n] by simp
  from assms(1) have "\<not> failing s"
    by (auto simp: DeleteNamespace_def split: if_splits)
  with assms(1) dead have s': "s' = cascade_delete [ns_ID n] s"
    by (simp add: DeleteNamespace_def)
  show ?thesis
    unfolding s' by (simp add: cascade_delete_def null_peer_def)
qed

text \<open>
  The theorem at the store with two pairs: \<open>v0\<close>/\<open>v1\<close> goes with \<open>ns1\<close>, \<open>w0\<close>/\<open>w1\<close>
  stays with its peer reference nulled and its first reference (\<open>ns2\<close>) as it was.
\<close>

theorem DeleteNamespace_cascade_witness:
  "DeleteNamespace ''ns1'' two_pairs =
     Inr (two_pairs\<lparr>namespaces := [rec_ns2], veth_pairs := [rec_w0\<lparr>vp_PeerNsID := None\<rparr>],
            ip_addresses := [], routes := []\<rparr>) \<and>
   distinct (map ns_Name (namespaces two_pairs)) \<and>
   rec_ns1 \<in> set (namespaces two_pairs) \<and> ns_Name rec_ns1 = ''ns1'' \<and>
   veth_pairs (two_pairs\<lparr>namespaces := [rec_ns2], veth_pairs := [rec_w0\<lparr>vp_PeerNsID := None\<rparr>],
            ip_addresses := [], routes := []\<rparr>) =
     map (\<lambda>v. if vp_PeerNsID v = Some (ns_ID rec_ns1) then v\<lparr>vp_PeerNsID := None\<rparr> else v)
       (filter (\<lambda>v. vp_NsID v \<noteq> Some (ns_ID rec_ns1)) (veth_pairs two_pairs))"
proof -
  have del: "DeleteNamespace ''ns1'' two_pairs =
     Inr (two_pairs\<lparr>namespaces := [rec_ns2], veth_pairs := [rec_w0\<lparr>vp_PeerNsID := None\<rparr>],
            ip_addresses := [], routes := []\<rparr>)"
    by (simp add: DeleteNamespace_def cascade_delete_def two_pairs_def cascade_scenario_def
        empty_store_def rec_ns1_def rec_ns2_def rec_v0_def rec_w0_def rec_addr_def
        rec_route_def refers_def null_peer_def)
  have uniq: "distinct (map ns_Name (namespaces two_pairs))"
    by (simp add: two_pairs_def cascade_scenario_def rec_ns1_def rec_ns2_def)
  have mem: "rec_ns1 \<in> set (namespaces two_pairs)"
    by (simp add: two_pairs_def cascade_scenario_def)
  have nm: "ns_Name rec_ns1 = ''ns1''"
    by (simp add: rec_ns1_def)
  from DeleteNamespace_cascade[OF del uniq mem nm] del uniq mem nm
  show ?thesis by simp
qed

section \<open>The reconciler's report\<close>

lemma set_reconcile:
  "set (reconcile live dbs) = live_row dbs ` set live \<union> set (orphan_rows live dbs)"
  by (simp add: reconcile_def)

lemma live_row_simps [simp]:
  "row_name (live_row dbs n) = n"
  "row_status (live_row dbs n) = (if n \<in> set (map ns_Name dbs) then ''active'' else ''untracked'')"
  "row_created (live_row dbs n) = map_option ns_CreatedAt (find (\<lambda>r. ns_Name r = n) dbs)"
  by (simp_all add: live_row_def)

lemma orphan_rowsD:
  "r \<in> set (orphan_rows live dbs) \<Longrightarrow>
     row_status r = ''orphaned'' \<and> row_name r \<notin> set live \<and>
     (\<exists>d \<in> set dbs. row_name r = ns_Name d \<and> row_created r = Some (ns_CreatedAt d))"
  by (auto simp: orphan_rows_def)

lemma orphan_rowsI:
  "d \<in> set dbs \<Longrightarrow> ns_Name d \<notin> set live \<Longrightarrow>
     \<exists>r \<in> set (orphan_rows live dbs). row_name r = ns_Name d"
  by (force simp: orphan_rows_def)

lemma reconcile_status:
  assumes "r \<in> set (reconcile live dbs)"
  shows "row_status r =
     (if row_name r \<in> set live
      then (if row_name r \<in> set (map ns_Name dbs) then ''active'' else ''untracked'')
      else ''orphaned'')"
  using assms unfolding set_reconcile
  by (auto dest: orphan_rowsD)

lemma reconcile_covers:
  assumes "n \<in> set live \<union> set (map ns_Name dbs)"
  shows "\<exists>r \<in> set (reconcile live dbs). row_name r = n"
proof (cases "n \<in> set live")
  case True
  then have "live_row dbs n \<in> set (reconcile live dbs)"
    by (simp add: set_reconcile)
  then show ?thesis
    by (rule bexI[rotated]) simp
next
  case False
  with assms obtain d where "d \<in> set dbs" "ns_Name d = n"
    by auto
  with False orphan_rowsI[of d dbs live] show ?thesis
    by (auto simp: set_reconcile)
qed

text \<open>
  Claim C7: given the names the system lists and the records the store lists, the
  command returns a report and no error; every name of the union of the two has a line in
  the report, and every line of that name carries the one status its membership fixes:
  \<^verbatim>\<open>active\<close> when it is in both, \<^verbatim>\<open>untracked\<close> when only the system has it,
  \<^verbatim>\<open>orphaned\<close> when only the store has it.
\<close>

theorem reconcile_classifies:
  assumes "ListNamespaces s = Inr dbs" and "n \<in> set live \<union> set (map ns_Name dbs)"
  shows "nsListCmd (Inr live) s = Inr (reconcile live dbs) \<and>
     (\<exists>r \<in> set (reconcile live dbs). row_name r = n) \<and>
     (\<forall>r \<in> set (reconcile live dbs). row_name r = n \<longrightarrow>
        row_status r =
          (if n \<in> set live
           then (if n \<in> set (map ns_Name dbs) then ''active'' else ''untracked'')
           else ''orphaned''))"
  using assms reconcile_covers[of n live dbs] reconcile_status[of _ live dbs]
  by (auto simp: nsListCmd_def)

text \<open>
  The specification's example: the system lists \<open>x\<close> and \<open>y\<close>, the store records \<open>y\<close>
  and \<open>z\<close>; the theorem at the name \<open>z\<close>, and the whole report.
\<close>

theorem reconcile_classifies_witness:
  "ListNamespaces store_yz = Inr [rec_y, rec_z] \<and>
   ''z'' \<in> set [''x'', ''y''] \<union> set (map ns_Name [rec_y, rec_z]) \<and>
   nsListCmd (Inr [''x'', ''y'']) store_yz =
     Inr [\<lparr>row_name = ''x'', row_status = ''untracked'', row_created = None\<rparr>,
          \<lparr>row_name = ''y'', row_status = ''active'', row_created = Some 5\<rparr>,
          \<lparr>row_name = ''z'', row_status = ''orphaned'', row_created = Some 7\<rparr>] \<and>
   (\<exists>r \<in> set (reconcile [''x'', ''y''] [rec_y, rec_z]). row_name r = ''z'')"
proof -
  have l: "ListNamespaces store_yz = Inr [rec_y, rec_z]"
    by (simp add: ListNamespaces_def store_yz_def empty_store_def rec_y_def rec_z_def)
  have m: "''z'' \<in> set [''x'', ''y''] \<union> set (map ns_Name [rec_y, rec_z])"
    by (simp add: rec_z_def)
  have r: "reconcile [''x'', ''y''] [rec_y, rec_z] =
     [\<lparr>row_name = ''x'', row_status = ''untracked'', row_created = None\<rparr>,
      \<lparr>row_name = ''y'', row_status = ''active'', row_created = Some 5\<rparr>,
      \<lparr>row_name = ''z'', row_status = ''orphaned'', row_created = Some 7\<rparr>]"
    by (simp add: reconcile_def live_row_def orphan_rows_def rec_y_def rec_z_def)
  from reconcile_classifies[OF l m] l m r show ?thesis
    by simp
qed

section \<open>The order of the report and its creation times\<close>

lemma sorted_names_filter:
  "sorted (map f xs) \<Longrightarrow> sorted (map f (filter P xs))"
  by (induction xs) auto

lemma ListNamespaces_sorted:
  "ListNamespaces s = Inr dbs \<Longrightarrow> sorted (map ns_Name dbs)"
  by (auto simp: ListNamespaces_def split: if_splits)

lemma find_name_Some:
  "n \<in> set (map ns_Name dbs) \<Longrightarrow>
     \<exists>d \<in> set dbs. ns_Name d = n \<and> find (\<lambda>r. ns_Name r = n) dbs = Some d"
  by (induction dbs) auto

lemma find_name_None:
  "n \<notin> set (map ns_Name dbs) \<Longrightarrow> find (\<lambda>r. ns_Name r = n) dbs = None"
  by (induction dbs) auto

lemma reconcile_created:
  assumes "r \<in> set (reconcile live dbs)"
  shows "(row_status r = ''untracked'' \<longrightarrow> row_created r = None) \<and>
         (row_status r \<noteq> ''untracked'' \<longrightarrow>
            (\<exists>d \<in> set dbs. ns_Name d = row_name r \<and> row_created r = Some (ns_CreatedAt d)))"
  using assms unfolding set_reconcile
proof
  assume "r \<in> live_row dbs ` set live"
  then obtain n where "r = live_row dbs n"
    by auto
  then show ?thesis
    using find_name_Some[of n dbs] find_name_None[of n dbs]
    by (cases "n \<in> set (map ns_Name dbs)") auto
next
  assume "r \<in> set (orphan_rows live dbs)"
  from orphan_rowsD[OF this] show ?thesis
    by auto
qed

text \<open>
  Claim C8, as stated, fails on the code: the report is not ordered by name across all
  its entries. When the system lists \<open>b\<close> and the store records \<open>a\<close>, the line of \<open>b\<close>
  (untracked) comes before the line of \<open>a\<close> (orphaned).
\<close>

theorem report_not_sorted_counterexample:
  "nsListCmd (Inr [''b'']) store_a =
     Inr [\<lparr>row_name = ''b'', row_status = ''untracked'', row_created = None\<rparr>,
          \<lparr>row_name = ''a'', row_status = ''orphaned'', row_created = Some 3\<rparr>] \<and>
   \<not> sorted (map row_name
     [\<lparr>row_name = ''b'', row_status = ''untracked'', row_created = None\<rparr>,
      \<lparr>row_name = ''a'', row_status = ''orphaned'', row_created = Some 3\<rparr>])"
  by (simp add: nsListCmd_def ListNamespaces_def store_a_def empty_store_def rec_a_def
      reconcile_def live_row_def orphan_rows_def)

text \<open>
  Claim C8, amended: the report lists the names the system enumerated first, in the
  enumeration's order (which is sorted by name, as \<^verbatim>\<open>os.ReadDir\<close> returns it), none of
  them \<^verbatim>\<open>orphaned\<close>, and after them the \<^verbatim>\<open>orphaned\<close> names in the store's order by name:
  each of the two groups is ordered by name, not the report as a whole. An entry carries
  the creation time of a store record of its name when its status is \<^verbatim>\<open>active\<close> or
  \<^verbatim>\<open>orphaned\<close>, and no time when it is \<^verbatim>\<open>untracked\<close>.
\<close>

theorem report_order_and_times:
  assumes "sorted live" and "ListNamespaces s = Inr dbs"
  shows "nsListCmd (Inr live) s = Inr (map (live_row dbs) live @ orphan_rows live dbs) \<and>
     map row_name (map (live_row dbs) live) = live \<and>
     sorted (map row_name (map (live_row dbs) live)) \<and>
     sorted (map row_name (orphan_rows live dbs)) \<and>
     (\<forall>r \<in> set (map (live_row dbs) live). row_status r \<noteq> ''orphaned'') \<and>
     (\<forall>r \<in> set (orphan_rows live dbs). row_status r = ''orphaned'') \<and>
     (\<forall>r \<in> set (map (live_row dbs) live @ orphan_rows live dbs).
        (row_status r = ''untracked'' \<longrightarrow> row_created r = None) \<and>
        (row_status r \<noteq> ''untracked'' \<longrightarrow>
           (\<exists>d \<in> set dbs. ns_Name d = row_name r \<and> row_created r = Some (ns_CreatedAt d))))"
proof -
  have 1: "nsListCmd (Inr live) s = Inr (map (live_row dbs) live @ orphan_rows live dbs)"
    using assms(2) by (simp add: nsListCmd_def reconcile_def)
  have 2: "map row_name (map (live_row dbs) live) = live"
    by (simp add: o_def)
  have 3: "sorted (map row_name (orphan_rows live dbs))"
    using sorted_names_filter[OF ListNamespaces_sorted[OF assms(2)],
        of "\<lambda>r. ns_Name r \<notin> set live"]
    by (simp add: orphan_rows_def o_def)
  have 4: "\<forall>r \<in> set (map (live_row dbs) live). row_status r \<noteq> ''orphaned''"
    by auto
  have 5: "\<forall>r \<in> set (orphan_rows live dbs). row_status r = ''orphaned''"
    by (auto dest: orphan_rowsD)
  have 6: "\<forall>r \<in> set (map (live_row dbs) live @ orphan_rows live dbs).
        (row_status r = ''untracked'' \<longrightarrow> row_created r = None) \<and>
        (row_status r \<noteq> ''untracked'' \<longrightarrow>
           (\<exists>d \<in> set dbs. ns_Name d = row_name r \<and> row_created r = Some (ns_CreatedAt d)))"
    using reconcile_created[of _ live dbs] by (simp add: reconcile_def)
  from 1 2 3 4 5 6 assms(1) show ?thesis
    by simp
qed

text \<open>The theorem at the specification's example.\<close>

theorem report_order_and_times_witness:
  "sorted [''x'', ''y''] \<and> ListNamespaces store_yz = Inr [rec_y, rec_z] \<and>
   nsListCmd (Inr [''x'', ''y'']) store_yz =
     Inr (map (live_row [rec_y, rec_z]) [''x'', ''y''] @ orphan_rows [''x'', ''y''] [rec_y, rec_z]) \<and>
   map row_name (orphan_rows [''x'', ''y''] [rec_y, rec_z]) = [''z''] \<and>
   map row_created (map (live_row [rec_y, rec_z]) [''x'', ''y''] @ orphan_rows [''x'', ''y''] [rec_y, rec_z])
     = [None, Some 5, Some 7]"
proof -
  have s: "sorted [''x'', ''y'']"
    by simp
  have l: "ListNamespaces store_yz = Inr [rec_y, rec_z]"
    by (simp add: ListNamespaces_def store_yz_def empty_store_def rec_y_def rec_z_def)
  have o: "map row_name (orphan_rows [''x'', ''y''] [rec_y, rec_z]) = [''z'']"
    by (simp add: orphan_rows_def rec_y_def rec_z_def)
  have c: "map row_created (map (live_row [rec_y, rec_z]) [''x'', ''y'']
              @ orphan_rows [''x'', ''y''] [rec_y, rec_z]) = [None, Some 5, Some 7]"
    by (simp add: live_row_def orphan_rows_def rec_y_def rec_z_def)
  from report_order_and_times[OF s l] s l o c show ?thesis
    by simp
qed

section \<open>Facts about the restore script\<close>

text \<open>What an invocation of \<^verbatim>\<open>ip\<close> and a log line do to the state of the run.\<close>

lemma ip_simps [simp]:
  "fst (ip tool c s) = fst (tool c (world s))"
  "world (snd (ip tool c s)) = snd (tool c (world s))"
  "issued (snd (ip tool c s)) = issued s @ [c]"
  "shlog (snd (ip tool c s)) = shlog s"
  "entered (snd (ip tool c s)) = entered s"
  by (simp_all add: ip_def case_prod_beta)

lemma log_simps [simp]:
  "world (log_info m s) = world s" "issued (log_info m s) = issued s"
  "entered (log_info m s) = entered s" "shlog (log_info m s) = shlog s @ [(''INFO'', m)]"
  "world (log_warn m s) = world s" "issued (log_warn m s) = issued s"
  "entered (log_warn m s) = entered s" "shlog (log_warn m s) = shlog s @ [(''WARN'', m)]"
  "world (log_success m s) = world s" "issued (log_success m s) = issued s"
  "entered (log_success m s) = entered s" "shlog (log_success m s) = shlog s @ [(''OK'', m)]"
  by (simp_all add: log_info_def log_warn_def log_success_def)

text \<open>No function of the script touches the history of the calls.\<close>

lemma entered_create_namespace [simp]:
  "entered (final (create_namespace tool n s)) = entered s"
  by (simp add: create_namespace_def Let_def case_prod_beta)

lemma entered_create_bridge [simp]:
  "entered (final (create_bridge tool b ns s)) = entered s"
  by (simp add: create_bridge_def Let_def case_prod_beta split: option.splits)

lemma entered_create_veth [simp]:
  "entered (final (create_veth tool v p ns pns s)) = entered s"
  by (simp add: create_veth_def Let_def case_prod_beta split: option.splits)

lemma entered_add_ip_address [simp]:
  "entered (final (add_ip_address tool i a ns s)) = entered s"
  by (simp add: add_ip_address_def Let_def case_prod_beta split: option.splits)

lemma entered_add_route [simp]:
  "entered (final (add_route tool d g i ns s)) = entered s"
  by (simp add: add_route_def Let_def case_prod_beta)

lemma entered_add_bridge_port [simp]:
  "entered (final (add_bridge_port tool b i ns s)) = entered s"
  by (simp add: add_bridge_port_def Let_def case_prod_beta)

lemma entered_create_gre_tunnel [simp]:
  "entered (final (create_gre_tunnel tool t l r k h ns s)) = entered s"
  by (simp add: create_gre_tunnel_def Let_def case_prod_beta split: option.splits)

lemma entered_dispatch [simp]:
  "entered (final (dispatch tool c s)) = entered s"
  by (cases c) simp_all

lemma entered_exec_call: "entered (final (exec_call tool c s)) = entered s @ [c]"
  by (simp add: exec_call_def)

lemma run_calls_entered:
  "\<exists>k. entered (final (run_calls tool cs s)) = entered s @ take k cs"
proof (induction cs arbitrary: s)
  case Nil
  then show ?case by simp
next
  case (Cons c cs)
  show ?case
  proof (cases "exec_call tool c s")
    case (Done s')
    with entered_exec_call[of tool c s] have e: "entered s' = entered s @ [c]" by simp
    from Cons.IH[of s'] obtain k where "entered (final (run_calls tool cs s')) = entered s' @ take k cs"
      by blast
    with Done e have "entered (final (run_calls tool (c # cs) s)) = entered s @ take (Suc k) (c # cs)"
      by simp
    then show ?thesis by blast
  next
    case (Exit s')
    with entered_exec_call[of tool c s] have "entered s' = entered s @ [c]" by simp
    with Exit have "entered (final (run_calls tool (c # cs) s)) = entered s @ take 1 (c # cs)"
      by simp
    then show ?thesis by blast
  qed
qed

lemma run_calls_completed:
  "completed (run_calls tool cs s) \<Longrightarrow> entered (final (run_calls tool cs s)) = entered s @ cs"
proof (induction cs arbitrary: s)
  case Nil
  then show ?case by simp
next
  case (Cons c cs)
  show ?case
  proof (cases "exec_call tool c s")
    case (Done s')
    with entered_exec_call[of tool c s] have e: "entered s' = entered s @ [c]" by simp
    from Cons.prems Done have "completed (run_calls tool cs s')" by simp
    from Cons.IH[OF this] Done e show ?thesis by simp
  next
    case (Exit s')
    with Cons.prems show ?thesis by simp
  qed
qed







section \<open>The order of the stages\<close>













section \<open>Running the restore script again\<close>

text \<open>
  Claim C5, as stated, fails on the script: a route is not looked up before it is
  created. In a second run over the same store the script issues \<^verbatim>\<open>ip route add\<close>
  again; the tool refuses the duplicate, and the run reports the warning
  \<^verbatim>\<open>Route may already exist\<close> and the line \<^verbatim>\<open>Added route\<close>, which is no skip.
\<close>

theorem second_run_adds_route_again_counterexample:
  "issued (final (second_run toy_ip route_db empty_kern)) =
     [NetnsListGrep ''ns1'', RouteAdd (Some ''ns1'') ''default'' (Some ''10.0.0.254'') None] \<and>
   filter (\<lambda>l. fst l \<noteq> ''INFO'') (shlog (final (second_run toy_ip route_db empty_kern))) =
     [(''WARN'', ''Namespace '' @ quoted ''ns1'' @ '' already exists, skipping''),
      (''WARN'', ''Route may already exist: default''),
      (''OK'', ''Added route: default'')]"
  by code_simp

text \<open>
  A second way the claim fails, by an oversight of \<^verbatim>\<open>create_veth\<close> rather than by its
  design: the pair is looked up in the host namespace only. In the specification's
  scenario (\<open>v0\<close> in \<open>ns1\<close>, \<open>v1\<close> in \<open>ns2\<close>) the second run does not find \<open>v0\<close>,
  creates a new pair in the host namespace, fails to move it and ends there: it leaves
  two more interfaces than the first run did.
\<close>

lemma second_run_moved_pair:
  "completed (first_run toy_ip cascade_scenario empty_kern) \<and>
   \<not> completed (second_run toy_ip cascade_scenario empty_kern) \<and>
   k_links (world (final (second_run toy_ip cascade_scenario empty_kern))) =
     k_links (world (final (first_run toy_ip cascade_scenario empty_kern)))
     @ [(None, ''v0''), (None, ''v1'')]"
  by code_simp

text \<open>
  Claim C5, amended: before it creates a Namespace, a Bridge, a VirtualLinkPair (looked
  up in the host namespace), an Address or a Tunnel, the script asks the tool whether the
  resource is there, and when the tool says so it skips the record: it issues no other
  command, writes one warning \<^verbatim>\<open>already exists, skipping\<close> and returns without an
  error. A Route and a BridgePort are not looked up: the command that adds them is issued
  in every run, its failure does not end the run, and a failed route is reported by the
  warning \<^verbatim>\<open>Route may already exist\<close> followed by the usual success line.
\<close>

theorem restore_skips_what_exists:
  "(fst (tool (NetnsListGrep n) (world s)) \<longrightarrow>
      create_namespace tool n s =
        Done (s\<lparr>world := snd (tool (NetnsListGrep n) (world s)),
                issued := issued s @ [NetnsListGrep n],
                shlog := shlog s @ [(''WARN'', ''Namespace '' @ quoted n @ '' already exists, skipping'')]\<rparr>)) \<and>
   (fst (tool (LinkShow (in_ns bns) b) (world s)) \<longrightarrow>
      create_bridge tool b bns s =
        Done (s\<lparr>world := snd (tool (LinkShow (in_ns bns) b) (world s)),
                issued := issued s @ [LinkShow (in_ns bns) b],
                shlog := shlog s @ [(''WARN'', ''Bridge '' @ quoted b @ '' already exists''
                   @ (case in_ns bns of Some x \<Rightarrow> '' in '' @ x | None \<Rightarrow> '''') @ '', skipping'')]\<rparr>)) \<and>
   (fst (tool (LinkShow None v) (world s)) \<longrightarrow>
      create_veth tool v p vns pns s =
        Done (s\<lparr>world := snd (tool (LinkShow None v) (world s)),
                issued := issued s @ [LinkShow None v],
                shlog := shlog s @ [(''WARN'', ''Veth '' @ quoted v @ '' already exists, skipping'')]\<rparr>)) \<and>
   (fst (tool (AddrShowGrep (in_ns ans) i a) (world s)) \<longrightarrow>
      add_ip_address tool i a ans s =
        Done (s\<lparr>world := snd (tool (AddrShowGrep (in_ns ans) i a) (world s)),
                issued := issued s @ [AddrShowGrep (in_ns ans) i a],
                shlog := shlog s @ [(''WARN'', ''Address '' @ quoted a @ '' already exists on '' @ i
                   @ (case in_ns ans of Some x \<Rightarrow> '' in '' @ x | None \<Rightarrow> '''') @ '', skipping'')]\<rparr>)) \<and>
   (fst (tool (LinkShow (in_ns tns) t) (world s)) \<longrightarrow>
      create_gre_tunnel tool t l r k h tns s =
        Done (s\<lparr>world := snd (tool (LinkShow (in_ns tns) t) (world s)),
                issued := issued s @ [LinkShow (in_ns tns) t],
                shlog := shlog s @ [(''WARN'', ''GRE tunnel '' @ quoted t @ '' already exists''
                   @ (case in_ns tns of Some x \<Rightarrow> '' in '' @ x | None \<Rightarrow> '''') @ '', skipping'')]\<rparr>)) \<and>
   completed (add_route tool d g ri rns s) \<and>
   issued (final (add_route tool d g ri rns s)) =
     issued s @ [RouteAdd (in_ns rns) (if d = ''default'' \<or> d = '''' then ''default'' else d)
                   (if g \<noteq> '''' \<and> g \<noteq> ''NULL'' then Some g else None)
                   (if ri \<noteq> '''' \<and> ri \<noteq> ''NULL'' then Some ri else None)] \<and>
   shlog (final (add_route tool d g ri rns s)) =
     shlog s
     @ (if fst (tool (RouteAdd (in_ns rns) (if d = ''default'' \<or> d = '''' then ''default'' else d)
                   (if g \<noteq> '''' \<and> g \<noteq> ''NULL'' then Some g else None)
                   (if ri \<noteq> '''' \<and> ri \<noteq> ''NULL'' then Some ri else None)) (world s))
        then [] else [(''WARN'', ''Route may already exist: '' @ d)])
     @ [(''OK'', ''Added route: '' @ d)] \<and>
   completed (add_bridge_port tool pb pi pns s) \<and>
   issued (final (add_bridge_port tool pb pi pns s)) =
     issued s @ [LinkSetMaster (in_ns pns) pi pb] \<and>
   shlog (final (add_bridge_port tool pb pi pns s)) =
     shlog s @ [(''OK'', ''Added port '' @ pi @ '' to bridge '' @ pb)]"
proof -
  have 1: "fst (tool (NetnsListGrep n) (world s)) \<longrightarrow>
      create_namespace tool n s =
        Done (s\<lparr>world := snd (tool (NetnsListGrep n) (world s)),
                issued := issued s @ [NetnsListGrep n],
                shlog := shlog s @ [(''WARN'', ''Namespace '' @ quoted n @ '' already exists, skipping'')]\<rparr>)"
    by (simp add: create_namespace_def ip_def log_warn_def case_prod_beta)
  have 2: "fst (tool (LinkShow (in_ns bns) b) (world s)) \<longrightarrow>
      create_bridge tool b bns s =
        Done (s\<lparr>world := snd (tool (LinkShow (in_ns bns) b) (world s)),
                issued := issued s @ [LinkShow (in_ns bns) b],
                shlog := shlog s @ [(''WARN'', ''Bridge '' @ quoted b @ '' already exists''
                   @ (case in_ns bns of Some x \<Rightarrow> '' in '' @ x | None \<Rightarrow> '''') @ '', skipping'')]\<rparr>)"
    by (cases "in_ns bns") (simp_all add: create_bridge_def ip_def log_warn_def case_prod_beta)
  have 3: "fst (tool (LinkShow None v) (world s)) \<longrightarrow>
      create_veth tool v p vns pns s =
        Done (s\<lparr>world := snd (tool (LinkShow None v) (world s)),
                issued := issued s @ [LinkShow None v],
                shlog := shlog s @ [(''WARN'', ''Veth '' @ quoted v @ '' already exists, skipping'')]\<rparr>)"
    by (simp add: create_veth_def ip_def log_warn_def case_prod_beta)
  have 4: "fst (tool (AddrShowGrep (in_ns ans) i a) (world s)) \<longrightarrow>
      add_ip_address tool i a ans s =
        Done (s\<lparr>world := snd (tool (AddrShowGrep (in_ns ans) i a) (world s)),
                issued := issued s @ [AddrShowGrep (in_ns ans) i a],
                shlog := shlog s @ [(''WARN'', ''Address '' @ quoted a @ '' already exists on '' @ i
                   @ (case in_ns ans of Some x \<Rightarrow> '' in '' @ x | None \<Rightarrow> '''') @ '', skipping'')]\<rparr>)"
    by (cases "in_ns ans") (simp_all add: add_ip_address_def ip_def log_warn_def case_prod_beta)
  have 5: "fst (tool (LinkShow (in_ns tns) t) (world s)) \<longrightarrow>
      create_gre_tunnel tool t l r k h tns s =
        Done (s\<lparr>world := snd (tool (LinkShow (in_ns tns) t) (world s)),
                issued := issued s @ [LinkShow (in_ns tns) t],
                shlog := shlog s @ [(''WARN'', ''GRE tunnel '' @ quoted t @ '' already exists''
                   @ (case in_ns tns of Some x \<Rightarrow> '' in '' @ x | None \<Rightarrow> '''') @ '', skipping'')]\<rparr>)"
    by (cases "in_ns tns") (simp_all add: create_gre_tunnel_def ip_def log_warn_def case_prod_beta Let_def)
  have 6: "completed (add_route tool d g ri rns s)"
    by (simp add: add_route_def Let_def case_prod_beta)
  have 7: "issued (final (add_route tool d g ri rns s)) =
     issued s @ [RouteAdd (in_ns rns) (if d = ''default'' \<or> d = '''' then ''default'' else d)
                   (if g \<noteq> '''' \<and> g \<noteq> ''NULL'' then Some g else None)
                   (if ri \<noteq> '''' \<and> ri \<noteq> ''NULL'' then Some ri else None)]"
    by (simp add: add_route_def Let_def case_prod_beta)
  have 8: "shlog (final (add_route tool d g ri rns s)) =
     shlog s
     @ (if fst (tool (RouteAdd (in_ns rns) (if d = ''default'' \<or> d = '''' then ''default'' else d)
                   (if g \<noteq> '''' \<and> g \<noteq> ''NULL'' then Some g else None)
                   (if ri \<noteq> '''' \<and> ri \<noteq> ''NULL'' then Some ri else None)) (world s))
        then [] else [(''WARN'', ''Route may already exist: '' @ d)])
     @ [(''OK'', ''Added route: '' @ d)]"
    by (simp add: add_route_def Let_def case_prod_beta)
  have 9: "completed (add_bridge_port tool pb pi pns s)"
    by (simp add: add_bridge_port_def case_prod_beta)
  have 10: "issued (final (add_bridge_port tool pb pi pns s)) =
     issued s @ [LinkSetMaster (in_ns pns) pi pb]"
    by (simp add: add_bridge_port_def case_prod_beta)
  have 11: "shlog (final (add_bridge_port tool pb pi pns s)) =
     shlog s @ [(''OK'', ''Added port '' @ pi @ '' to bridge '' @ pb)]"
    by (simp add: add_bridge_port_def case_prod_beta)
  from 1 2 3 4 5 6 7 8 9 10 11 show ?thesis
    by blast
qed

text \<open>The theorem on a system where each of the five resources is live.\<close>

theorem restore_skips_what_exists_witness:
  "fst (toy_ip (NetnsListGrep ''ns1'') full_kern) \<and>
   fst (toy_ip (LinkShow (in_ns '''') ''br0'') full_kern) \<and>
   fst (toy_ip (LinkShow None ''v0'') full_kern) \<and>
   fst (toy_ip (AddrShowGrep (in_ns '''') ''v0'' ''10.0.0.1/24'') full_kern) \<and>
   fst (toy_ip (LinkShow (in_ns ''ns1'') ''gre1'') full_kern) \<and>
   issued (final (create_namespace toy_ip ''ns1'' (fresh_run full_kern))) = [NetnsListGrep ''ns1''] \<and>
   issued (final (create_bridge toy_ip ''br0'' '''' (fresh_run full_kern))) = [LinkShow None ''br0''] \<and>
   issued (final (create_veth toy_ip ''v0'' ''v1'' ''ns1'' '''' (fresh_run full_kern)))
     = [LinkShow None ''v0''] \<and>
   issued (final (add_ip_address toy_ip ''v0'' ''10.0.0.1/24'' '''' (fresh_run full_kern)))
     = [AddrShowGrep None ''v0'' ''10.0.0.1/24''] \<and>
   issued (final (create_gre_tunnel toy_ip ''gre1'' ''10.0.0.1'' ''10.0.0.2'' 0 0 ''ns1''
                    (fresh_run full_kern)))
     = [LinkShow (Some ''ns1'') ''gre1'']"
proof -
  have p1: "fst (toy_ip (NetnsListGrep ''ns1'') full_kern)"
    by (simp add: full_kern_def)
  have p2: "fst (toy_ip (LinkShow (in_ns '''') ''br0'') full_kern)"
    by (simp add: full_kern_def in_ns_def)
  have p3: "fst (toy_ip (LinkShow None ''v0'') full_kern)"
    by (simp add: full_kern_def)
  have p4: "fst (toy_ip (AddrShowGrep (in_ns '''') ''v0'' ''10.0.0.1/24'') full_kern)"
    by (simp add: full_kern_def in_ns_def)
  have p5: "fst (toy_ip (LinkShow (in_ns ''ns1'') ''gre1'') full_kern)"
    by (simp add: full_kern_def in_ns_def)
  have w: "world (fresh_run full_kern) = full_kern" "issued (fresh_run full_kern) = []"
    by (simp_all add: fresh_run_def)
  have n: "in_ns '''' = None" "in_ns ''ns1'' = Some ''ns1''"
    by (simp_all add: in_ns_def)
  from restore_skips_what_exists[where tool = toy_ip and s = "fresh_run full_kern"
      and n = "''ns1''" and b = "''br0''" and bns = "''''" and v = "''v0''" and p = "''v1''"
      and vns = "''ns1''" and pns = "''''" and i = "''v0''" and a = "''10.0.0.1/24''"
      and ans = "''''" and t = "''gre1''" and l = "''10.0.0.1''" and r = "''10.0.0.2''"
      and k = 0 and h = 0 and tns = "''ns1''"]
    p1 p2 p3 p4 p5
  show ?thesis
    by (simp add: w n)
qed

section \<open>A failure while restoring\<close>

text \<open>
  Claim C4 says that a failure on one record is logged as a warning and never ends the
  batch. Two runs show otherwise.

  The script runs under \<^verbatim>\<open>set -e\<close>, and the commands of \<^verbatim>\<open>create_namespace\<close>,
  \<^verbatim>\<open>create_bridge\<close> and \<^verbatim>\<open>create_veth\<close> are unguarded. On a host where an interface
  \<open>v1\<close> is left over, restoring the pair \<open>v0\<close>/\<open>v1\<close> fails in \<^verbatim>\<open>ip link add\<close>: the
  script ends there, writes no warning, never reaches the address of \<open>br0\<close> (a resource
  the pair has nothing to do with) and never writes \<^verbatim>\<open>Restoration complete!\<close>.

  Where a failure is tolerated it is not always logged as a warning: an address whose
  interface does not exist is not added, and the script writes the success line for it.
\<close>

theorem restore_failure_counterexample:
  "\<not> completed (first_run toy_ip blocked_db stale_kern) \<and>
   issued (final (first_run toy_ip blocked_db stale_kern)) =
     [NetnsListGrep ''blue'', NetnsAdd ''blue'', LinkSetUp (Some ''blue'') ''lo'',
      LinkShow None ''br0'', LinkAddBridge None ''br0'', LinkSetUp None ''br0'',
      LinkShow None ''v0'', LinkAddVeth ''v0'' ''v1''] \<and>
   filter (\<lambda>l. fst l \<noteq> ''INFO'') (shlog (final (first_run toy_ip blocked_db stale_kern))) =
     [(''OK'', ''Created namespace: blue''), (''OK'', ''Created bridge: br0'')] \<and>
   k_addrs (world (final (first_run toy_ip blocked_db stale_kern))) = [] \<and>
   address_calls blocked_db = [Call_add_ip_address ''br0'' ''10.0.0.1/24'' ''''] \<and>
   completed (first_run toy_ip lost_addr_db empty_kern) \<and>
   k_addrs (world (final (first_run toy_ip lost_addr_db empty_kern))) = [] \<and>
   filter (\<lambda>l. fst l \<noteq> ''INFO'') (shlog (final (first_run toy_ip lost_addr_db empty_kern))) =
     [(''OK'', ''Added IP: 10.0.0.9/24 to eth9'')]"
  by code_simp

text \<open>
  The four functions whose commands end in \<^verbatim>\<open>|| true\<close> or \<^verbatim>\<open>|| log_warn\<close> return
  whatever the tool answers.
\<close>

lemma tolerant_calls_complete:
  "completed (add_ip_address tool i a ns s)"
  "completed (add_route tool d g i ns s)"
  "completed (add_bridge_port tool b i ns s)"
  "completed (create_gre_tunnel tool t l r k h ns s)"
  by (simp_all add: add_ip_address_def add_route_def add_bridge_port_def create_gre_tunnel_def
      Let_def case_prod_beta split: option.splits)

lemma run_calls_append:
  "run_calls tool (xs @ ys) s =
     (case run_calls tool xs s of Done s' \<Rightarrow> run_calls tool ys s' | Exit s' \<Rightarrow> Exit s')"
  by (induction xs arbitrary: s) (simp_all split: outcome.splits)

lemma tolerant_run_completes:
  "\<forall>c \<in> set cs. stage_of c \<notin> {Some 1, Some 2, Some 3} \<Longrightarrow> completed (run_calls tool cs s)"
proof (induction cs arbitrary: s)
  case Nil
  then show ?case by simp
next
  case (Cons c cs)
  from Cons.prems have "completed (exec_call tool c s)"
    by (cases c) (simp_all add: exec_call_def tolerant_calls_complete)
  then obtain s' where "exec_call tool c s = Done s'"
    by (cases "exec_call tool c s") simp_all
  with Cons show ?case by simp
qed

lemma late_stages_tolerant:
  "\<forall>c \<in> set ([Call_log_info m4] @ address_calls db @ [Call_log_info m5] @ route_calls db
               @ [Call_log_info m6] @ port_calls db @ [Call_log_info m7] @ tunnel_calls db
               @ [Call_log_info b1, Call_log_info b2, Call_log_info b3]).
     stage_of c \<notin> {Some 1, Some 2, Some 3}"
  by (auto simp: address_calls_def route_calls_def port_calls_def tunnel_calls_def)

text \<open>
  Claim C4, as the script has it, for the records of the last four stages. The functions
  that restore an address, a route, a bridge port and a tunnel return normally whatever
  the tool answers, so the script goes on to the next record; and \<^verbatim>\<open>restore_all\<close> runs to
  its end exactly when its first three stages (namespaces, bridges, pairs) do. Only a
  route that cannot be added is logged as a warning, and the success line follows it. For
  an address and a tunnel that are not there yet, and for a port, the log gets the success
  line alone, whether or not the tool added anything.
\<close>

theorem restore_tolerates_late_stages:
  "completed (add_ip_address tool i a ns s) \<and>
   completed (add_route tool d g i ns s) \<and>
   completed (add_bridge_port tool b i ns s) \<and>
   completed (create_gre_tunnel tool t l r k h ns s) \<and>
   completed (restore_all tool db s) =
     completed (run_calls tool
        ([Call_log_info banner, Call_log_info ''Starting network namespace restoration'',
          Call_log_info banner, Call_log_info ''Restoring namespaces...'']
         @ namespace_calls db
         @ [Call_log_info ''Restoring bridges...''] @ bridge_calls db
         @ [Call_log_info ''Restoring veth pairs...''] @ veth_calls db) s) \<and>
   shlog (final (add_route tool d g i ns s)) =
     shlog s
     @ (if fst (tool (RouteAdd (in_ns ns)
                        (if d = ''default'' \<or> d = '''' then ''default'' else d)
                        (if g \<noteq> '''' \<and> g \<noteq> ''NULL'' then Some g else None)
                        (if i \<noteq> '''' \<and> i \<noteq> ''NULL'' then Some i else None)) (world s))
        then [] else [(''WARN'', ''Route may already exist: '' @ d)])
     @ [(''OK'', ''Added route: '' @ d)] \<and>
   shlog (final (add_bridge_port tool b i ns s)) =
     shlog s @ [(''OK'', ''Added port '' @ i @ '' to bridge '' @ b)] \<and>
   (\<not> fst (tool (AddrShowGrep (in_ns ns) i a) (world s)) \<longrightarrow>
      shlog (final (add_ip_address tool i a ns s)) =
        shlog s @ [(''OK'', ''Added IP: '' @ a @ '' to '' @ i)]) \<and>
   (\<not> fst (tool (LinkShow (in_ns ns) t) (world s)) \<longrightarrow>
      shlog (final (create_gre_tunnel tool t l r k h ns s)) =
        shlog s @ [(''OK'', ''Created GRE tunnel: '' @ t @ '' (local='' @ l @ '', remote=''
                            @ r @ '')'')])"
proof -
  let ?early = "[Call_log_info banner, Call_log_info ''Starting network namespace restoration'',
          Call_log_info banner, Call_log_info ''Restoring namespaces...'']
         @ namespace_calls db
         @ [Call_log_info ''Restoring bridges...''] @ bridge_calls db
         @ [Call_log_info ''Restoring veth pairs...''] @ veth_calls db"
  let ?late = "[Call_log_info ''Restoring IP addresses...''] @ address_calls db
         @ [Call_log_info ''Restoring routes...''] @ route_calls db
         @ [Call_log_info ''Restoring bridge ports...''] @ port_calls db
         @ [Call_log_info ''Restoring GRE tunnels...''] @ tunnel_calls db
         @ [Call_log_info banner, Call_log_info ''Restoration complete!'', Call_log_info banner]"
  have split_calls: "restore_all_calls db = ?early @ ?late"
    by (simp add: restore_all_calls_def)
  have late: "\<And>s'. completed (run_calls tool ?late s')"
    by (rule tolerant_run_completes) (rule late_stages_tolerant)
  have whole: "completed (restore_all tool db s) = completed (run_calls tool ?early s)"
  proof (cases "run_calls tool ?early s")
    case (Done s')
    with late[of s'] show ?thesis
      unfolding restore_all_def split_calls run_calls_append by simp
  next
    case (Exit s')
    then show ?thesis
      unfolding restore_all_def split_calls run_calls_append by simp
  qed
  have route: "shlog (final (add_route tool d g i ns s)) =
     shlog s
     @ (if fst (tool (RouteAdd (in_ns ns)
                        (if d = ''default'' \<or> d = '''' then ''default'' else d)
                        (if g \<noteq> '''' \<and> g \<noteq> ''NULL'' then Some g else None)
                        (if i \<noteq> '''' \<and> i \<noteq> ''NULL'' then Some i else None)) (world s))
        then [] else [(''WARN'', ''Route may already exist: '' @ d)])
     @ [(''OK'', ''Added route: '' @ d)]"
    by (simp add: add_route_def Let_def case_prod_beta)
  have port: "shlog (final (add_bridge_port tool b i ns s)) =
     shlog s @ [(''OK'', ''Added port '' @ i @ '' to bridge '' @ b)]"
    by (simp add: add_bridge_port_def Let_def case_prod_beta)
  have addr: "\<not> fst (tool (AddrShowGrep (in_ns ns) i a) (world s)) \<longrightarrow>
      shlog (final (add_ip_address tool i a ns s)) =
        shlog s @ [(''OK'', ''Added IP: '' @ a @ '' to '' @ i)]"
    by (simp add: add_ip_address_def Let_def case_prod_beta split: option.splits)
  have gre: "\<not> fst (tool (LinkShow (in_ns ns) t) (world s)) \<longrightarrow>
      shlog (final (create_gre_tunnel tool t l r k h ns s)) =
        shlog s @ [(''OK'', ''Created GRE tunnel: '' @ t @ '' (local='' @ l @ '', remote=''
                            @ r @ '')'')]"
    by (simp add: create_gre_tunnel_def Let_def case_prod_beta split: option.splits)
  from whole route port addr gre tolerant_calls_complete[of tool] show ?thesis
    by blast
qed

text \<open>
  The theorem on an empty system: neither the interface \<open>eth9\<close> nor the tunnel \<open>gre1\<close>
  is there, the tool refuses to add the address, and the log gets the success line.
\<close>

theorem restore_tolerates_late_stages_witness:
  "\<not> fst (toy_ip (AddrShowGrep (in_ns '''') ''eth9'' ''10.0.0.9/24'') (world (fresh_run empty_kern))) \<and>
   \<not> fst (toy_ip (LinkShow (in_ns '''') ''gre1'') (world (fresh_run empty_kern))) \<and>
   \<not> fst (toy_ip (AddrAdd None ''eth9'' ''10.0.0.9/24'') empty_kern) \<and>
   shlog (final (add_ip_address toy_ip ''eth9'' ''10.0.0.9/24'' '''' (fresh_run empty_kern))) =
     [(''OK'', ''Added IP: 10.0.0.9/24 to eth9'')] \<and>
   shlog (final (create_gre_tunnel toy_ip ''gre1'' ''10.0.0.1'' ''10.0.0.2'' 0 0 ''''
                   (fresh_run empty_kern))) =
     [(''OK'', ''Created GRE tunnel: gre1 (local=10.0.0.1, remote=10.0.0.2)'')] \<and>
   completed (restore_all toy_ip lost_addr_db (fresh_run empty_kern))"
proof -
  have w: "world (fresh_run empty_kern) = empty_kern" "shlog (fresh_run empty_kern) = []"
    by (simp_all add: fresh_run_def)
  have p1: "\<not> fst (toy_ip (AddrShowGrep (in_ns '''') ''eth9'' ''10.0.0.9/24'')
                     (world (fresh_run empty_kern)))"
    and p2: "\<not> fst (toy_ip (LinkShow (in_ns '''') ''gre1'') (world (fresh_run empty_kern)))"
    and p3: "\<not> fst (toy_ip (AddrAdd None ''eth9'' ''10.0.0.9/24'') empty_kern)"
    by (simp_all add: fresh_run_def in_ns_def empty_kern_def)
  have early: "completed (run_calls toy_ip
        ([Call_log_info banner, Call_log_info ''Starting network namespace restoration'',
          Call_log_info banner, Call_log_info ''Restoring namespaces...'']
         @ namespace_calls lost_addr_db
         @ [Call_log_info ''Restoring bridges...''] @ bridge_calls lost_addr_db
         @ [Call_log_info ''Restoring veth pairs...''] @ veth_calls lost_addr_db)
        (fresh_run empty_kern))"
    by (simp add: namespace_calls_def bridge_calls_def veth_calls_def lost_addr_db_def
        empty_store_def exec_call_def)
  from restore_tolerates_late_stages[of toy_ip "''eth9''" "''10.0.0.9/24''" "''''"
      "fresh_run empty_kern" "''10.1.0.0/16''" "''''" "''br0''" "''gre1''" "''10.0.0.1''"
      "''10.0.0.2''" 0 0 lost_addr_db]
  show ?thesis
    using p1 p2 p3 early by (simp add: w)
qed


section \<open>Creating: the record fails after the system call succeeded\<close>




text \<open>
  The specification's example of a rollback: the store already records a namespace \<open>a\<close>,
  so the INSERT fails on the UNIQUE name, and the namespace just created is deleted again.
\<close>

lemma nsCreateCmd_duplicate_name:
  "nsCreateCmd toy_ops ''a'' dup_env =
     (Some (''failed to record namespace: failed to create namespace: ''
            @ ''UNIQUE constraint failed: namespaces.name''), dup_env)"
  by code_simp


section \<open>Deleting: the system first, then the record\<close>

text \<open>
  The commands that delete an address and a route never reach the store, whatever the
  system answers.
\<close>

lemma address_and_route_delete_keep_the_store:
  "e_db (snd (ipDeleteCmd ops ipAddress ipInterface ipNs e)) = e_db e"
  "e_db (snd (routeDeleteCmd ops destinationNetwork routeNs e)) = e_db e"
  by (simp_all add: ipDeleteCmd_def routeDeleteCmd_def split: prod.splits option.splits)

text \<open>
  Claim C3 says that every kind of resource is deleted by one protocol: the live removal
  first, then the removal of the record, with a warning when that fails. Two runs show
  otherwise.

  On an empty system with an empty store, the address \<open>10.0.0.1/24\<close> is added to \<open>v0\<close>
  and then deleted, and a route is added and then deleted, all four commands succeeding:
  the system is empty again, and the store still holds the record of the address and the
  record of the route; the commands that delete them never attempt the removal. The API
  handler \<^verbatim>\<open>deleteAddress\<close>, on the same state, removes the record.

  With the port \<open>v0\<close> of \<open>br0\<close> live and recorded and a store whose connection fails,
  removing the port succeeds and leaves the record, and no warning is written.
\<close>

theorem delete_leaves_record_counterexample:
  "ipAddCmd toy_ops ''10.0.0.1/24'' ''v0'' '''' addr_env =
     (None, addr_env\<lparr>e_sys := [LiveAddr '''' ''v0'' ''10.0.0.1/24''],
                     e_db := (e_db addr_env)\<lparr>ip_addresses :=
                               [\<lparr>ip_ID = 1, ip_InterfaceName = ''v0'', ip_NsID = None,
                                 ip_Address = ''10.0.0.1/24'', ip_CreatedAt = 0\<rparr>],
                               seq_ip_addresses := 1\<rparr>,
                     e_out := [Stdout ''Added 10.0.0.1/24 to v0'']\<rparr>) \<and>
   ipDeleteCmd toy_ops ''10.0.0.1/24'' ''v0'' ''''
       (snd (ipAddCmd toy_ops ''10.0.0.1/24'' ''v0'' '''' addr_env)) =
     (None, addr_env\<lparr>e_sys := [],
                     e_db := (e_db addr_env)\<lparr>ip_addresses :=
                               [\<lparr>ip_ID = 1, ip_InterfaceName = ''v0'', ip_NsID = None,
                                 ip_Address = ''10.0.0.1/24'', ip_CreatedAt = 0\<rparr>],
                               seq_ip_addresses := 1\<rparr>,
                     e_out := [Stdout ''Added 10.0.0.1/24 to v0'',
                               Stdout ''Removed 10.0.0.1/24 from v0'']\<rparr>) \<and>
   ip_addresses (e_db (snd (deleteAddress toy_ops 1
       (snd (ipAddCmd toy_ops ''10.0.0.1/24'' ''v0'' '''' addr_env))))) = [] \<and>
   routeDeleteCmd toy_ops ''10.1.0.0/16'' ''''
       (snd (routeAddCmd toy_ops ''10.1.0.0/16'' '''' ''v0'' '''' addr_env)) =
     (None, addr_env\<lparr>e_sys := [],
                     e_db := (e_db addr_env)\<lparr>routes :=
                               [\<lparr>rt_ID = 1, rt_NsID = None, rt_Destination = ''10.1.0.0/16'',
                                 rt_Gateway = '''', rt_InterfaceName = ''v0'', rt_CreatedAt = 0\<rparr>],
                               seq_routes := 1\<rparr>,
                     e_out := [Stdout ''Added route: 10.1.0.0/16'',
                               Stdout ''Deleted route: 10.1.0.0/16'']\<rparr>) \<and>
   bridgeRemovePortCmd toy_ops ''br0'' ''v0'' '''' lost_env =
     (None, lost_env\<lparr>e_sys := [LiveNs ''a'', LivePair ''v0'' ''v1'', LiveBridge '''' ''br0'',
                                LiveGre '''' ''gre1''],
                     e_out := [Stdout ''Removed v0 from bridge br0'']\<rparr>) \<and>
   map bp_InterfaceName (bridge_ports (e_db lost_env)) = [''v0'']"
  by code_simp

text \<open>
  Claim C3, as the commands have it. Deleting a namespace, a pair, a bridge or a tunnel:
  when the call on the system fails, its error is returned and the store is untouched;
  when it succeeds the record is removed, and when that removal fails the command writes
  a warning to the standard error and still succeeds. Removing a port of a bridge: the
  same order, but the result of removing the record is not looked at, so a store that
  fails leaves the record and no warning.
\<close>

theorem delete_protocol:
  "(ns_Delete ops namespaceName (e_sys e) = (Some err, w) \<longrightarrow>
      nsDeleteCmd ops namespaceName e = (Some err, e\<lparr>e_sys := w\<rparr>)) \<and>
   (veth_Delete ops interfaceName (e_sys e) = (Some err, w) \<longrightarrow>
      vethDeleteCmd ops interfaceName e = (Some err, e\<lparr>e_sys := w\<rparr>)) \<and>
   (bridge_Delete ops bridgeName bridgeNs (e_sys e) = (Some err, w) \<longrightarrow>
      bridgeDeleteCmd ops bridgeName bridgeNs e = (Some err, e\<lparr>e_sys := w\<rparr>)) \<and>
   (gre_Delete ops tunnelName greNs (e_sys e) = (Some err, w) \<longrightarrow>
      greDeleteCmd ops tunnelName greNs e = (Some err, e\<lparr>e_sys := w\<rparr>)) \<and>
   (bridge_RemovePort ops portName bridgeNs (e_sys e) = (Some err, w) \<longrightarrow>
      bridgeRemovePortCmd ops bridgeName portName bridgeNs e = (Some err, e\<lparr>e_sys := w\<rparr>)) \<and>
   (ns_Delete ops namespaceName (e_sys e) = (None, w1) \<and>
    DeleteNamespace namespaceName (e_db e) = Inl err \<longrightarrow>
      nsDeleteCmd ops namespaceName e =
        (None, e\<lparr>e_sys := w1,
                 e_out := e_out e @ [Stderr (''Warning: failed to remove from database: '' @ err),
                                     Stdout (''Deleted namespace: '' @ namespaceName)]\<rparr>)) \<and>
   (veth_Delete ops interfaceName (e_sys e) = (None, w2) \<and>
    DeleteVethPair interfaceName (e_db e) = Inl err \<longrightarrow>
      vethDeleteCmd ops interfaceName e =
        (None, e\<lparr>e_sys := w2,
                 e_out := e_out e @ [Stderr (''Warning: failed to remove from database: '' @ err),
                                     Stdout (''Deleted veth pair: '' @ interfaceName)]\<rparr>)) \<and>
   (bridge_Delete ops bridgeName bridgeNs (e_sys e) = (None, w3) \<and>
    DeleteBridge bridgeName (e_db e) = Inl err \<longrightarrow>
      bridgeDeleteCmd ops bridgeName bridgeNs e =
        (None, e\<lparr>e_sys := w3,
                 e_out := e_out e @ [Stderr (''Warning: failed to remove from database: '' @ err),
                                     Stdout (''Deleted bridge: '' @ bridgeName)]\<rparr>)) \<and>
   (gre_Delete ops tunnelName greNs (e_sys e) = (None, w4) \<and>
    DeleteGRETunnel tunnelName (e_db e) = Inl err \<longrightarrow>
      greDeleteCmd ops tunnelName greNs e =
        (None, e\<lparr>e_sys := w4,
                 e_out := e_out e @ [Stderr (''Warning: failed to remove from database: '' @ err),
                                     Stdout (''Deleted GRE tunnel: '' @ tunnelName)]\<rparr>)) \<and>
   (bridge_RemovePort ops portName bridgeNs (e_sys e) = (None, w5) \<and> failing (e_db e) \<longrightarrow>
      bridgeRemovePortCmd ops bridgeName portName bridgeNs e =
        (None, e\<lparr>e_sys := w5,
                 e_out := e_out e @ [Stdout (''Removed '' @ portName @ '' from bridge ''
                                              @ bridgeName)]\<rparr>)) \<and>
   (ns_Delete ops namespaceName (e_sys e) = (None, w1) \<and>
    DeleteNamespace namespaceName (e_db e) = Inr d1 \<longrightarrow>
      nsDeleteCmd ops namespaceName e =
        (None, e\<lparr>e_sys := w1, e_db := d1,
                 e_out := e_out e @ [Stdout (''Deleted namespace: '' @ namespaceName)]\<rparr>)) \<and>
   (veth_Delete ops interfaceName (e_sys e) = (None, w2) \<and>
    DeleteVethPair interfaceName (e_db e) = Inr d2 \<longrightarrow>
      vethDeleteCmd ops interfaceName e =
        (None, e\<lparr>e_sys := w2, e_db := d2,
                 e_out := e_out e @ [Stdout (''Deleted veth pair: '' @ interfaceName)]\<rparr>)) \<and>
   (bridge_Delete ops bridgeName bridgeNs (e_sys e) = (None, w3) \<and>
    DeleteBridge bridgeName (e_db e) = Inr d3 \<longrightarrow>
      bridgeDeleteCmd ops bridgeName bridgeNs e =
        (None, e\<lparr>e_sys := w3, e_db := d3,
                 e_out := e_out e @ [Stdout (''Deleted bridge: '' @ bridgeName)]\<rparr>)) \<and>
   (gre_Delete ops tunnelName greNs (e_sys e) = (None, w4) \<and>
    DeleteGRETunnel tunnelName (e_db e) = Inr d4 \<longrightarrow>
      greDeleteCmd ops tunnelName greNs e =
        (None, e\<lparr>e_sys := w4, e_db := d4,
                 e_out := e_out e @ [Stdout (''Deleted GRE tunnel: '' @ tunnelName)]\<rparr>)) \<and>
   (bridge_RemovePort ops portName bridgeNs (e_sys e) = (None, w5) \<and>
    GetBridgeByName bridgeName (e_db e) = Inr (Some bridgeRecord) \<and>
    RemoveBridgePort (br_ID bridgeRecord) portName (e_db e) = Inr d5 \<longrightarrow>
      bridgeRemovePortCmd ops bridgeName portName bridgeNs e =
        (None, e\<lparr>e_sys := w5, e_db := d5,
                 e_out := e_out e @ [Stdout (''Removed '' @ portName @ '' from bridge ''
                                              @ bridgeName)]\<rparr>))"
  by (simp add: nsDeleteCmd_def vethDeleteCmd_def bridgeDeleteCmd_def greDeleteCmd_def
      bridgeRemovePortCmd_def forget_port_def GetBridgeByName_def)

text \<open>
  The theorem on the five resources: recorded and none of them live, every command
  returns the error of the system; live with a store whose connection fails, every
  command succeeds, the four delete commands with a warning; live and recorded, every
  command removes its record.
\<close>

theorem delete_protocol_witness:
  "nsDeleteCmd toy_ops ''a'' gone_env = (Some ''no such device'', gone_env) \<and>
   vethDeleteCmd toy_ops ''v0'' gone_env = (Some ''no such device'', gone_env) \<and>
   bridgeDeleteCmd toy_ops ''br0'' '''' gone_env = (Some ''no such device'', gone_env) \<and>
   greDeleteCmd toy_ops ''gre1'' '''' gone_env = (Some ''no such device'', gone_env) \<and>
   bridgeRemovePortCmd toy_ops ''br0'' ''v0'' '''' gone_env = (Some ''no such device'', gone_env) \<and>
   nsDeleteCmd toy_ops ''a'' lost_env =
     (None, lost_env\<lparr>e_sys := [LivePair ''v0'' ''v1'', LiveBridge '''' ''br0'',
                                LivePort ''br0'' ''v0'', LiveGre '''' ''gre1''],
                     e_out := [Stderr ''Warning: failed to remove from database: database is unavailable'',
                               Stdout ''Deleted namespace: a'']\<rparr>) \<and>
   vethDeleteCmd toy_ops ''v0'' lost_env =
     (None, lost_env\<lparr>e_sys := [LiveNs ''a'', LiveBridge '''' ''br0'', LivePort ''br0'' ''v0'',
                                LiveGre '''' ''gre1''],
                     e_out := [Stderr ''Warning: failed to remove from database: database is unavailable'',
                               Stdout ''Deleted veth pair: v0'']\<rparr>) \<and>
   bridgeDeleteCmd toy_ops ''br0'' '''' lost_env =
     (None, lost_env\<lparr>e_sys := [LiveNs ''a'', LivePair ''v0'' ''v1'', LivePort ''br0'' ''v0'',
                                LiveGre '''' ''gre1''],
                     e_out := [Stderr ''Warning: failed to remove from database: database is unavailable'',
                               Stdout ''Deleted bridge: br0'']\<rparr>) \<and>
   greDeleteCmd toy_ops ''gre1'' '''' lost_env =
     (None, lost_env\<lparr>e_sys := [LiveNs ''a'', LivePair ''v0'' ''v1'', LiveBridge '''' ''br0'',
                                LivePort ''br0'' ''v0''],
                     e_out := [Stderr ''Warning: failed to remove from database: database is unavailable'',
                               Stdout ''Deleted GRE tunnel: gre1'']\<rparr>) \<and>
   bridgeRemovePortCmd toy_ops ''br0'' ''v0'' '''' lost_env =
     (None, lost_env\<lparr>e_sys := [LiveNs ''a'', LivePair ''v0'' ''v1'', LiveBridge '''' ''br0'',
                                LiveGre '''' ''gre1''],
                     e_out := [Stdout ''Removed v0 from bridge br0'']\<rparr>) \<and>
   nsDeleteCmd toy_ops ''a'' both_env =
     (None, both_env\<lparr>e_sys := [LivePair ''v0'' ''v1'', LiveBridge '''' ''br0'',
                                LivePort ''br0'' ''v0'', LiveGre '''' ''gre1''],
                     e_db := five_store\<lparr>namespaces := []\<rparr>,
                     e_out := [Stdout ''Deleted namespace: a'']\<rparr>) \<and>
   vethDeleteCmd toy_ops ''v0'' both_env =
     (None, both_env\<lparr>e_sys := [LiveNs ''a'', LiveBridge '''' ''br0'', LivePort ''br0'' ''v0'',
                                LiveGre '''' ''gre1''],
                     e_db := five_store\<lparr>veth_pairs := []\<rparr>,
                     e_out := [Stdout ''Deleted veth pair: v0'']\<rparr>) \<and>
   bridgeDeleteCmd toy_ops ''br0'' '''' both_env =
     (None, both_env\<lparr>e_sys := [LiveNs ''a'', LivePair ''v0'' ''v1'', LivePort ''br0'' ''v0'',
                                LiveGre '''' ''gre1''],
                     e_db := five_store\<lparr>bridges := [], bridge_ports := []\<rparr>,
                     e_out := [Stdout ''Deleted bridge: br0'']\<rparr>) \<and>
   greDeleteCmd toy_ops ''gre1'' '''' both_env =
     (None, both_env\<lparr>e_sys := [LiveNs ''a'', LivePair ''v0'' ''v1'', LiveBridge '''' ''br0'',
                                LivePort ''br0'' ''v0''],
                     e_db := five_store\<lparr>gre_tunnels := []\<rparr>,
                     e_out := [Stdout ''Deleted GRE tunnel: gre1'']\<rparr>) \<and>
   bridgeRemovePortCmd toy_ops ''br0'' ''v0'' '''' both_env =
     (None, both_env\<lparr>e_sys := [LiveNs ''a'', LivePair ''v0'' ''v1'', LiveBridge '''' ''br0'',
                                LiveGre '''' ''gre1''],
                     e_db := five_store\<lparr>bridge_ports := []\<rparr>,
                     e_out := [Stdout ''Removed v0 from bridge br0'']\<rparr>)"
proof -
  have gone: "e_sys gone_env = []" "gone_env\<lparr>e_sys := []\<rparr> = gone_env"
    by (simp_all add: gone_env_def)
  have g: "ns_Delete toy_ops ''a'' [] = (Some ''no such device'', [])"
    "veth_Delete toy_ops ''v0'' [] = (Some ''no such device'', [])"
    "bridge_Delete toy_ops ''br0'' '''' [] = (Some ''no such device'', [])"
    "gre_Delete toy_ops ''gre1'' '''' [] = (Some ''no such device'', [])"
    "bridge_RemovePort toy_ops ''v0'' '''' [] = (Some ''no such device'', [])"
    by (simp_all add: toy_ops_def take_out_def)
  have live: "e_sys lost_env = five_live" "e_sys both_env = five_live"
    "e_out lost_env = []" "e_out both_env = []" "e_db both_env = five_store"
    by (simp_all add: lost_env_def both_env_def)
  have s: "ns_Delete toy_ops ''a'' five_live =
             (None, [LivePair ''v0'' ''v1'', LiveBridge '''' ''br0'', LivePort ''br0'' ''v0'',
                     LiveGre '''' ''gre1''])"
    "veth_Delete toy_ops ''v0'' five_live =
             (None, [LiveNs ''a'', LiveBridge '''' ''br0'', LivePort ''br0'' ''v0'',
                     LiveGre '''' ''gre1''])"
    "bridge_Delete toy_ops ''br0'' '''' five_live =
             (None, [LiveNs ''a'', LivePair ''v0'' ''v1'', LivePort ''br0'' ''v0'',
                     LiveGre '''' ''gre1''])"
    "gre_Delete toy_ops ''gre1'' '''' five_live =
             (None, [LiveNs ''a'', LivePair ''v0'' ''v1'', LiveBridge '''' ''br0'',
                     LivePort ''br0'' ''v0''])"
    "bridge_RemovePort toy_ops ''v0'' '''' five_live =
             (None, [LiveNs ''a'', LivePair ''v0'' ''v1'', LiveBridge '''' ''br0'',
                     LiveGre '''' ''gre1''])"
    by (simp_all add: toy_ops_def take_out_def five_live_def)
  have down: "failing (e_db lost_env)"
    "DeleteNamespace ''a'' (e_db lost_env) = Inl ''database is unavailable''"
    "DeleteVethPair ''v0'' (e_db lost_env) = Inl ''database is unavailable''"
    "DeleteBridge ''br0'' (e_db lost_env) = Inl ''database is unavailable''"
    "DeleteGRETunnel ''gre1'' (e_db lost_env) = Inl ''database is unavailable''"
    by (simp_all add: lost_env_def DeleteNamespace_def DeleteVethPair_def DeleteBridge_def
        DeleteGRETunnel_def db_error_def)
  have up: "DeleteNamespace ''a'' five_store = Inr (five_store\<lparr>namespaces := []\<rparr>)"
    "DeleteVethPair ''v0'' five_store = Inr (five_store\<lparr>veth_pairs := []\<rparr>)"
    "DeleteBridge ''br0'' five_store = Inr (five_store\<lparr>bridges := [], bridge_ports := []\<rparr>)"
    "DeleteGRETunnel ''gre1'' five_store = Inr (five_store\<lparr>gre_tunnels := []\<rparr>)"
    "GetBridgeByName ''br0'' five_store
       = Inr (Some \<lparr>br_ID = 1, br_Name = ''br0'', br_NsID = None, br_CreatedAt = 3\<rparr>)"
    "RemoveBridgePort 1 ''v0'' five_store = Inr (five_store\<lparr>bridge_ports := []\<rparr>)"
    by code_simp+
  have r1: "nsDeleteCmd toy_ops ''a'' gone_env = (Some ''no such device'', gone_env) \<and>
   vethDeleteCmd toy_ops ''v0'' gone_env = (Some ''no such device'', gone_env) \<and>
   bridgeDeleteCmd toy_ops ''br0'' '''' gone_env = (Some ''no such device'', gone_env) \<and>
   greDeleteCmd toy_ops ''gre1'' '''' gone_env = (Some ''no such device'', gone_env) \<and>
   bridgeRemovePortCmd toy_ops ''br0'' ''v0'' '''' gone_env = (Some ''no such device'', gone_env)"
    using delete_protocol[where ops = toy_ops and e = gone_env and namespaceName = "''a''"
        and interfaceName = "''v0''" and bridgeName = "''br0''" and bridgeNs = "''''"
        and tunnelName = "''gre1''" and greNs = "''''" and portName = "''v0''"
        and err = "''no such device''" and w = "[]"]
    by (simp add: gone g)
  have r2: "nsDeleteCmd toy_ops ''a'' lost_env =
     (None, lost_env\<lparr>e_sys := [LivePair ''v0'' ''v1'', LiveBridge '''' ''br0'',
                                LivePort ''br0'' ''v0'', LiveGre '''' ''gre1''],
                     e_out := [Stderr ''Warning: failed to remove from database: database is unavailable'',
                               Stdout ''Deleted namespace: a'']\<rparr>) \<and>
   vethDeleteCmd toy_ops ''v0'' lost_env =
     (None, lost_env\<lparr>e_sys := [LiveNs ''a'', LiveBridge '''' ''br0'', LivePort ''br0'' ''v0'',
                                LiveGre '''' ''gre1''],
                     e_out := [Stderr ''Warning: failed to remove from database: database is unavailable'',
                               Stdout ''Deleted veth pair: v0'']\<rparr>) \<and>
   bridgeDeleteCmd toy_ops ''br0'' '''' lost_env =
     (None, lost_env\<lparr>e_sys := [LiveNs ''a'', LivePair ''v0'' ''v1'', LivePort ''br0'' ''v0'',
                                LiveGre '''' ''gre1''],
                     e_out := [Stderr ''Warning: failed to remove from database: database is unavailable'',
                               Stdout ''Deleted bridge: br0'']\<rparr>) \<and>
   greDeleteCmd toy_ops ''gre1'' '''' lost_env =
     (None, lost_env\<lparr>e_sys := [LiveNs ''a'', LivePair ''v0'' ''v1'', LiveBridge '''' ''br0'',
                                LivePort ''br0'' ''v0''],
                     e_out := [Stderr ''Warning: failed to remove from database: database is unavailable'',
                               Stdout ''Deleted GRE tunnel: gre1'']\<rparr>) \<and>
   bridgeRemovePortCmd toy_ops ''br0'' ''v0'' '''' lost_env =
     (None, lost_env\<lparr>e_sys := [LiveNs ''a'', LivePair ''v0'' ''v1'', LiveBridge '''' ''br0'',
                                LiveGre '''' ''gre1''],
                     e_out := [Stdout ''Removed v0 from bridge br0'']\<rparr>)"
    using delete_protocol[where ops = toy_ops and e = lost_env and namespaceName = "''a''"
        and interfaceName = "''v0''" and bridgeName = "''br0''" and bridgeNs = "''''"
        and tunnelName = "''gre1''" and greNs = "''''" and portName = "''v0''"
        and err = "''database is unavailable''"
        and ?w1.0 = "[LivePair ''v0'' ''v1'', LiveBridge '''' ''br0'', LivePort ''br0'' ''v0'',
                      LiveGre '''' ''gre1'']"
        and ?w2.0 = "[LiveNs ''a'', LiveBridge '''' ''br0'', LivePort ''br0'' ''v0'',
                      LiveGre '''' ''gre1'']"
        and ?w3.0 = "[LiveNs ''a'', LivePair ''v0'' ''v1'', LivePort ''br0'' ''v0'',
                      LiveGre '''' ''gre1'']"
        and ?w4.0 = "[LiveNs ''a'', LivePair ''v0'' ''v1'', LiveBridge '''' ''br0'',
                      LivePort ''br0'' ''v0'']"
        and ?w5.0 = "[LiveNs ''a'', LivePair ''v0'' ''v1'', LiveBridge '''' ''br0'',
                      LiveGre '''' ''gre1'']"]
    by (simp add: live s down)
  have r3: "nsDeleteCmd toy_ops ''a'' both_env =
     (None, both_env\<lparr>e_sys := [LivePair ''v0'' ''v1'', LiveBridge '''' ''br0'',
                                LivePort ''br0'' ''v0'', LiveGre '''' ''gre1''],
                     e_db := five_store\<lparr>namespaces := []\<rparr>,
                     e_out := [Stdout ''Deleted namespace: a'']\<rparr>) \<and>
   vethDeleteCmd toy_ops ''v0'' both_env =
     (None, both_env\<lparr>e_sys := [LiveNs ''a'', LiveBridge '''' ''br0'', LivePort ''br0'' ''v0'',
                                LiveGre '''' ''gre1''],
                     e_db := five_store\<lparr>veth_pairs := []\<rparr>,
                     e_out := [Stdout ''Deleted veth pair: v0'']\<rparr>) \<and>
   bridgeDeleteCmd toy_ops ''br0'' '''' both_env =
     (None, both_env\<lparr>e_sys := [LiveNs ''a'', LivePair ''v0'' ''v1'', LivePort ''br0'' ''v0'',
                                LiveGre '''' ''gre1''],
                     e_db := five_store\<lparr>bridges := [], bridge_ports := []\<rparr>,
                     e_out := [Stdout ''Deleted bridge: br0'']\<rparr>) \<and>
   greDeleteCmd toy_ops ''gre1'' '''' both_env =
     (None, both_env\<lparr>e_sys := [LiveNs ''a'', LivePair ''v0'' ''v1'', LiveBridge '''' ''br0'',
                                LivePort ''br0'' ''v0''],
                     e_db := five_store\<lparr>gre_tunnels := []\<rparr>,
                     e_out := [Stdout ''Deleted GRE tunnel: gre1'']\<rparr>) \<and>
   bridgeRemovePortCmd toy_ops ''br0'' ''v0'' '''' both_env =
     (None, both_env\<lparr>e_sys := [LiveNs ''a'', LivePair ''v0'' ''v1'', LiveBridge '''' ''br0'',
                                LiveGre '''' ''gre1''],
                     e_db := five_store\<lparr>bridge_ports := []\<rparr>,
                     e_out := [Stdout ''Removed v0 from bridge br0'']\<rparr>)"
    using delete_protocol[where ops = toy_ops and e = both_env and namespaceName = "''a''"
        and interfaceName = "''v0''" and bridgeName = "''br0''" and bridgeNs = "''''"
        and tunnelName = "''gre1''" and greNs = "''''" and portName = "''v0''"
        and ?w1.0 = "[LivePair ''v0'' ''v1'', LiveBridge '''' ''br0'', LivePort ''br0'' ''v0'',
                      LiveGre '''' ''gre1'']"
        and ?w2.0 = "[LiveNs ''a'', LiveBridge '''' ''br0'', LivePort ''br0'' ''v0'',
                      LiveGre '''' ''gre1'']"
        and ?w3.0 = "[LiveNs ''a'', LivePair ''v0'' ''v1'', LivePort ''br0'' ''v0'',
                      LiveGre '''' ''gre1'']"
        and ?w4.0 = "[LiveNs ''a'', LivePair ''v0'' ''v1'', LiveBridge '''' ''br0'',
                      LivePort ''br0'' ''v0'']"
        and ?w5.0 = "[LiveNs ''a'', LivePair ''v0'' ''v1'', LiveBridge '''' ''br0'',
                      LiveGre '''' ''gre1'']"
        and ?d1.0 = "five_store\<lparr>namespaces := []\<rparr>"
        and ?d2.0 = "five_store\<lparr>veth_pairs := []\<rparr>"
        and ?d3.0 = "five_store\<lparr>bridges := [], bridge_ports := []\<rparr>"
        and ?d4.0 = "five_store\<lparr>gre_tunnels := []\<rparr>"
        and ?d5.0 = "five_store\<lparr>bridge_ports := []\<rparr>"
        and bridgeRecord = "\<lparr>br_ID = 1, br_Name = ''br0'', br_NsID = None, br_CreatedAt = 3\<rparr>"]
    by (simp add: live s up)
  from r1 r2 r3 show ?thesis by blast
qed


section \<open>The thread's namespace after a scoped switch\<close>

text \<open>What each library call does to the namespace the thread is in and to the history.\<close>

lemma syscall_simps [simp]:
  "cur_ns (snd (syscall c t)) = cur_ns t"
  "last (libcalls (snd (syscall c t))) = (c, fst (syscall c t))"
  by (simp_all add: syscall_def Let_def)








text \<open>
  With no failing library call, a function that returns an error inside \<open>ns1\<close> has its
  error returned, and the thread is back in namespace 0; and \<^verbatim>\<open>Manager.Create\<close> whose
  \<^verbatim>\<open>os.Create\<close> fails switches back before it returns.
\<close>

lemma RunInNamespace_returns_the_error:
  "RunInNamespace ''ns1'' (\<lambda>u. (Some ''no such device'', u)) (thread0\<lparr>faults := []\<rparr>) =
     (Some ''no such device'',
      thread0\<lparr>faults := [],
              libcalls := [(Lib_Get, None), (Lib_GetFromPath ''ns1'', None), (Lib_Set 1, None),
                           (Lib_Set 0, None)]\<rparr>)"
  by code_simp

lemma Manager_Create_cleans_up:
  "Manager_Create ''x'' thread0 =
     (Some ''failed to create namespace file: operation not permitted'',
      thread0\<lparr>next_ns := 3, faults := [],
              libcalls := [(Lib_Get, None), (Lib_MkdirAll, None), (Lib_New, None),
                           (Lib_Create ''x'', Some ''operation not permitted''),
                           (Lib_Set 0, None)]\<rparr>)"
  by code_simp


section \<open>Cleaning up after a failed move (\<^verbatim>\<open>VethManager.Create\<close>)\<close>

text \<open>
  What \<^verbatim>\<open>Create\<close> does once \<^verbatim>\<open>netlink.LinkAdd\<close> has made the pair: when the move of
  the first end fails, or the first end is done and the move of the peer fails, it calls
  \<^verbatim>\<open>netlink.LinkDel\<close> on the pair, on the system as the failed move left it, drops the
  result and returns the error of the move. When both moves are done it returns \<^verbatim>\<open>nil\<close>
  and deletes nothing.
\<close>

theorem veth_create_cleans_up:
  assumes "LinkAdd_veth lib a b w = (None, w1)"
  shows "(ns \<noteq> '''' \<and> moveToNamespace lib a ns w1 = (Some err, w2) \<longrightarrow>
            VethManager_Create lib a b ns pns w =
              (Some err, snd (LinkDel_veth lib a b w2))) \<and>
         ((if ns \<noteq> '''' then moveToNamespace lib a ns w1 else (None, w1)) = (None, w2) \<and>
          pns \<noteq> '''' \<and> moveToNamespace lib b pns w2 = (Some err, w3) \<longrightarrow>
            VethManager_Create lib a b ns pns w =
              (Some err, snd (LinkDel_veth lib a b w3))) \<and>
         ((if ns \<noteq> '''' then moveToNamespace lib a ns w1 else (None, w1)) = (None, w2) \<and>
          (if pns \<noteq> '''' then moveToNamespace lib b pns w2 else (None, w2)) = (None, w3) \<longrightarrow>
            VethManager_Create lib a b ns pns w = (None, w3))"
  using assms by (simp add: VethManager_Create_def)

text \<open>
  The theorem on the host with the namespace \<open>ns1\<close>. With \<open>v0\<close> for the missing
  namespace \<open>ghost\<close> the first move fails and the pair is deleted; with \<open>v0\<close> for the
  host and \<open>v1\<close> for \<open>ghost\<close> the move of the peer fails and the pair is deleted; with
  \<open>v0\<close> for \<open>ns1\<close> and \<open>v1\<close> for the host the pair is made.
\<close>

theorem veth_create_cleans_up_witness:
  "LinkAdd_veth toy_netlink ''v0'' ''v1'' vk_ns1
     = (None, vk_ns1\<lparr>vk_pairs := [((None, ''v0''), (None, ''v1''))]\<rparr>) \<and>
   VethManager_Create toy_netlink ''v0'' ''v1'' ''ghost'' '''' vk_ns1 =
     (Some ''failed to get namespace \"ghost\": no such file or directory'', vk_ns1) \<and>
   VethManager_Create toy_netlink ''v0'' ''v1'' '''' ''ghost'' vk_ns1 =
     (Some ''failed to get namespace \"ghost\": no such file or directory'', vk_ns1) \<and>
   VethManager_Create toy_netlink ''v0'' ''v1'' ''ns1'' '''' vk_ns1 =
     (None, vk_ns1\<lparr>vk_pairs := [((Some ''ns1'', ''v0''), (None, ''v1''))]\<rparr>)"
proof -
  let ?w1 = "vk_ns1\<lparr>vk_pairs := [((None, ''v0''), (None, ''v1''))]\<rparr>"
  let ?err = "''failed to get namespace \"ghost\": no such file or directory''"
  have add: "LinkAdd_veth toy_netlink ''v0'' ''v1'' vk_ns1 = (None, ?w1)"
    by (simp add: toy_netlink_def vk_ns1_def vk_ends_def)
  have m1: "moveToNamespace toy_netlink ''v0'' ''ghost'' ?w1 = (Some ?err, ?w1)"
    and m2: "moveToNamespace toy_netlink ''v1'' ''ghost'' ?w1 = (Some ?err, ?w1)"
    and m3: "moveToNamespace toy_netlink ''v0'' ''ns1'' ?w1
               = (None, vk_ns1\<lparr>vk_pairs := [((Some ''ns1'', ''v0''), (None, ''v1''))]\<rparr>)"
    by (simp_all add: moveToNamespace_def toy_netlink_def vk_ns1_def vk_ends_def)
  have del: "snd (LinkDel_veth toy_netlink ''v0'' ''v1'' ?w1) = vk_ns1"
    by (simp add: toy_netlink_def vk_ns1_def vk_ends_def)
  from veth_create_cleans_up[OF add, of "''ghost''" ?err ?w1 "''''" ?w1]
    veth_create_cleans_up[OF add, of "''''" ?err ?w1 "''ghost''" ?w1]
    veth_create_cleans_up[OF add, of "''ns1''" ?err
       "vk_ns1\<lparr>vk_pairs := [((Some ''ns1'', ''v0''), (None, ''v1''))]\<rparr>" "''''"
       "vk_ns1\<lparr>vk_pairs := [((Some ''ns1'', ''v0''), (None, ''v1''))]\<rparr>"]
  show ?thesis
    using add m1 m2 m3 by (simp add: del)
qed

text \<open>
  Claim C10 says that a failed create never leaves a half-configured pair: the pair just
  created is deleted before the error is returned. The cleanup of \<^verbatim>\<open>Create\<close> misses
  when the first end has already been moved. On a host with the namespace \<open>ns1\<close> and no
  namespace \<open>ghost\<close>, creating \<open>v0\<close>/\<open>v1\<close> with \<open>v0\<close> for \<open>ns1\<close> and \<open>v1\<close> for
  \<open>ghost\<close>: \<open>v0\<close> is moved into \<open>ns1\<close>, the move of \<open>v1\<close> fails, \<^verbatim>\<open>LinkDel\<close> looks
  for \<open>v0\<close> in the host namespace, where it no longer is, and fails, and \<^verbatim>\<open>Create\<close>
  returns the error of the move with the pair still there, \<open>v0\<close> in \<open>ns1\<close> and \<open>v1\<close> in
  the host.
\<close>

theorem VethManager_Create_leaves_half_pair:
  "VethManager_Create toy_netlink ''v0'' ''v1'' ''ns1'' ''ghost'' vk_ns1 =
     (Some ''failed to get namespace \"ghost\": no such file or directory'',
      vk_ns1\<lparr>vk_pairs := [((Some ''ns1'', ''v0''), (None, ''v1''))]\<rparr>)"
  by code_simp

end
